theory Spec2Isabelle
  imports Complex_Main "HOL-Library.List_Lexorder"
begin

section \<open>Python values used by hello.py\<close>

text \<open>
  A Python \<open>str\<close> is a sequence of Unicode code points; \<open>len\<close> counts code points and
  \<open>sorted\<close> compares strings code point by code point. A string is therefore a list of
  code points, ordered lexicographically. \<open>ascii\<close> writes an ASCII literal.
\<close>

type_synonym pystr = "nat list"

definition ascii :: "string \<Rightarrow> pystr" where
  "ascii s = map of_char s"

text \<open>
  \<open>str.strip()\<close>, \<open>str.isspace()\<close> and the regular expression class \<open>\s\<close> on \<open>str\<close>
  patterns share one table of white space (CPython's \<open>Py_UNICODE_ISSPACE\<close>).
\<close>

definition is_space :: "nat \<Rightarrow> bool" where
  "is_space c \<longleftrightarrow>
     (9 \<le> c \<and> c \<le> 13) \<or> (28 \<le> c \<and> c \<le> 32) \<or> c = 133 \<or> c = 160 \<or> c = 5760 \<or>
     (8192 \<le> c \<and> c \<le> 8202) \<or> c = 8232 \<or> c = 8233 \<or> c = 8239 \<or> c = 8287 \<or> c = 12288"

definition lstrip :: "pystr \<Rightarrow> pystr" where
  "lstrip s = dropWhile is_space s"

definition rstrip :: "pystr \<Rightarrow> pystr" where
  "rstrip s = rev (dropWhile is_space (rev s))"

definition strip :: "pystr \<Rightarrow> pystr" where
  "strip s = rstrip (lstrip s)"

text \<open>\<open>x in s\<close> on strings: \<open>x\<close> occurs in \<open>s\<close> as a contiguous run.\<close>

fun py_in :: "pystr \<Rightarrow> pystr \<Rightarrow> bool" where
  "py_in w [] = (w = [])"
| "py_in w (c # cs) = (w = take (length w) (c # cs) \<or> py_in w cs)"

text \<open>
  \<open>str.lower()\<close> is a table of the Unicode standard and is not part of the program.
  Every function that calls it takes it as the parameter \<open>lower\<close>, so each theorem holds
  for Python's own table. \<open>ascii_lower\<close> agrees with \<open>str.lower()\<close> on ASCII text and
  serves in the concrete examples.
\<close>

definition ascii_lower :: "pystr \<Rightarrow> pystr" where
  "ascii_lower s = map (\<lambda>c. if 65 \<le> c \<and> c \<le> 90 then c + 32 else c) s"

definition startswith :: "pystr \<Rightarrow> pystr \<Rightarrow> bool" where
  "startswith s p \<longleftrightarrow> take (length p) s = p"

text \<open>
  \<open>str.splitlines()\<close>: the line boundaries are LF, VT, FF, CR, CR LF, FS, GS, RS, NEL,
  LS and PS; a final boundary opens no further line.
\<close>

definition is_linebreak :: "nat \<Rightarrow> bool" where
  "is_linebreak c \<longleftrightarrow> (10 \<le> c \<and> c \<le> 13) \<or> (28 \<le> c \<and> c \<le> 30) \<or> c = 133 \<or> c = 8232 \<or> c = 8233"

fun splitlines_from :: "pystr \<Rightarrow> pystr \<Rightarrow> pystr list" where
  "splitlines_from cur [] = (if cur = [] then [] else [cur])"
| "splitlines_from cur [c] = (if is_linebreak c then [cur] else [cur @ [c]])"
| "splitlines_from cur (c # d # cs) =
     (if c = 13 \<and> d = 10 then cur # splitlines_from [] cs
      else if is_linebreak c then cur # splitlines_from [] (d # cs)
      else splitlines_from (cur @ [c]) (d # cs))"

definition splitlines :: "pystr \<Rightarrow> pystr list" where
  "splitlines s = splitlines_from [] s"

text \<open>
  The values \<open>Response.json()\<close> can return. A dict is an association list in insertion
  order whose keys are distinct, as the keys of a parsed JSON object are. \<open>PNonFinite\<close>
  stands for the floats NaN and Infinity, which Python's decoder accepts.
\<close>

datatype pyval =
    PNone
  | PBool bool
  | PNum rat
  | PNonFinite
  | PStr pystr
  | PList "pyval list"
  | PDict "(pystr \<times> pyval) list"

fun truthy :: "pyval \<Rightarrow> bool" where
  "truthy PNone = False"
| "truthy (PBool b) = b"
| "truthy (PNum x) = (x \<noteq> 0)"
| "truthy PNonFinite = True"
| "truthy (PStr s) = (s \<noteq> [])"
| "truthy (PList xs) = (xs \<noteq> [])"
| "truthy (PDict kvs) = (kvs \<noteq> [])"

text \<open>
  The operations below return \<open>None\<close> where Python raises (AttributeError, TypeError,
  KeyError or IndexError). hello.py performs all of them inside \<open>try\<close> blocks whose
  handler is \<open>except Exception\<close>, which catches every one of these classes alike.
\<close>

fun py_get :: "pyval \<Rightarrow> pystr \<Rightarrow> pyval \<Rightarrow> pyval option" where
  "py_get (PDict kvs) key dflt = Some (case map_of kvs key of Some v \<Rightarrow> v | None \<Rightarrow> dflt)"
| "py_get v key dflt = None"

fun py_first :: "pyval \<Rightarrow> pyval option" where
  "py_first (PList (x # xs)) = Some x"
| "py_first (PStr (c # cs)) = Some (PStr [c])"
| "py_first v = None"

fun py_iter :: "pyval \<Rightarrow> pyval list option" where
  "py_iter (PList xs) = Some xs"
| "py_iter (PDict kvs) = Some (map (\<lambda>kv. PStr (fst kv)) kvs)"
| "py_iter (PStr s) = Some (map (\<lambda>c. PStr [c]) s)"
| "py_iter v = None"

fun py_strip :: "pyval \<Rightarrow> pystr option" where
  "py_strip (PStr s) = Some (strip s)"
| "py_strip v = None"

fun py_values :: "pyval \<Rightarrow> pyval list option" where
  "py_values (PDict kvs) = Some (map snd kvs)"
| "py_values v = None"

section \<open>The lexicon filter (module level)\<close>

text \<open>
  A value of a float column of the data frame: a finite number, one of the two
  infinities, or NaN. \<open>float_less\<close> is the comparison \<open><\<close> of such values: NaN compares
  false with everything, \<open>-inf\<close> is below and \<open>+inf\<close> above every finite number.
\<close>

datatype pyfloat = Finite rat | PosInf | NegInf | NaN

fun float_less :: "pyfloat \<Rightarrow> pyfloat \<Rightarrow> bool" where
  "float_less (Finite a) (Finite b) = (a < b)"
| "float_less (Finite a) PosInf = True"
| "float_less NegInf (Finite b) = True"
| "float_less NegInf PosInf = True"
| "float_less x y = False"

text \<open>One row of the data frame read from the FLELex table.\<close>

record lexicon_row =
  word :: pystr
  freq_total :: pyfloat
  freq_C2 :: pyfloat

definition rare_mask :: "lexicon_row \<Rightarrow> bool" where
  "rare_mask r \<longleftrightarrow>
     float_less (Finite 0) (freq_C2 r) \<and>
     float_less (freq_total r) (Finite 100) \<and>
     length (word r) > 6"

definition advanced_lemmas :: "(pystr \<Rightarrow> pystr) \<Rightarrow> lexicon_row list \<Rightarrow> pystr set" where
  "advanced_lemmas lower df = set (map (\<lambda>r. lower (word r)) (filter rare_mask df))"

section \<open>_clean_wikicode\<close>

text \<open>
  \<open>re.sub\<close> scans from the left; where the pattern matches, the match is replaced and the
  scan resumes behind it, elsewhere one character is copied. A matcher returns the
  replacement and the text behind the match. No pattern of hello.py matches the empty
  string, so the length test below always succeeds for them.
\<close>

type_synonym matcher = "pystr \<Rightarrow> (pystr \<times> pystr) option"

fun re_sub :: "matcher \<Rightarrow> pystr \<Rightarrow> pystr" where
  "re_sub m [] = []"
| "re_sub m (c # cs) =
     (case m (c # cs) of
        None \<Rightarrow> c # re_sub m cs
      | Some (repl, rest) \<Rightarrow>
          if length rest \<le> length cs then repl @ re_sub m rest else c # re_sub m cs)"

text \<open>Pattern 1, a template block, replaced by nothing.\<close>

definition match_template :: matcher where
  "match_template s =
     (if startswith s [123, 123] then
        (let t = dropWhile (\<lambda>c. c \<noteq> 125) (drop 2 s)
         in if startswith t [125, 125] then Some ([], drop 2 t) else None)
      else None)"

text \<open>Pattern 2, a piped link, replaced by its second part.\<close>

definition match_piped_link :: matcher where
  "match_piped_link s =
     (if startswith s [91, 91] then
        (let target = takeWhile (\<lambda>c. c \<noteq> 93 \<and> c \<noteq> 124) (drop 2 s);
             t = dropWhile (\<lambda>c. c \<noteq> 93 \<and> c \<noteq> 124) (drop 2 s)
         in if target \<noteq> [] \<and> startswith t [124] then
              (let label = takeWhile (\<lambda>c. c \<noteq> 93) (drop 1 t);
                   u = dropWhile (\<lambda>c. c \<noteq> 93) (drop 1 t)
               in if label \<noteq> [] \<and> startswith u [93, 93] then Some (label, drop 2 u) else None)
            else None)
      else None)"

text \<open>Pattern 3, a plain link, replaced by its content.\<close>

definition match_link :: matcher where
  "match_link s =
     (if startswith s [91, 91] then
        (let label = takeWhile (\<lambda>c. c \<noteq> 93) (drop 2 s);
             u = dropWhile (\<lambda>c. c \<noteq> 93) (drop 2 s)
         in if label \<noteq> [] \<and> startswith u [93, 93] then Some (label, drop 2 u) else None)
      else None)"

text \<open>Pattern 4, two or more apostrophes, replaced by nothing.\<close>

definition match_emphasis :: matcher where
  "match_emphasis s =
     (if startswith s [39, 39] then Some ([], dropWhile (\<lambda>c. c = 39) (drop 2 s)) else None)"

text \<open>Pattern 5, a run of white space, replaced by one space.\<close>

definition match_spaces :: matcher where
  "match_spaces s =
     (case s of
        [] \<Rightarrow> None
      | c # cs \<Rightarrow> if is_space c then Some ([32], dropWhile is_space cs) else None)"

definition clean_wikicode :: "pystr \<Rightarrow> pystr" where
  "clean_wikicode text0 =
     (let text1 = re_sub match_template text0;
          text2 = re_sub match_piped_link text1;
          text3 = re_sub match_link text2;
          text4 = re_sub match_emphasis text3
      in strip (re_sub match_spaces text4))"

section \<open>The outside world\<close>

text \<open>
  An HTTP response as hello.py reads it: the status code, the body text and what
  \<open>.json()\<close> gives (\<open>None\<close> when it raises).
\<close>

record response =
  status_code :: int
  resp_text :: pystr
  resp_json :: "pyval option"

text \<open>A token of a spaCy document, with the four attributes hello.py reads.\<close>

record token =
  tok_lemma :: pystr
  tok_pos :: pystr
  tok_is_alpha :: bool
  tok_len :: nat

text \<open>
  An entry of a parsed feed may carry a summary, a description, both or neither.
\<close>

record entry =
  summary :: "pystr option"
  description :: "pystr option"

text \<open>
  Everything the program obtains from outside itself. A call that raises is \<open>None\<close>.
  A reply is a function of the request. \<open>spacy_load\<close> is the import and model load of
  \<open>clean_and_count_words\<close>; \<open>frequent_words_file\<close> holds the lines of
  \<open>data/frequent_french_words.txt\<close>; \<open>random_below\<close> is the stream of draws of the random
  generator.

  \<open>lexicon_defs\<close> is the binding of the module-level name that the last line of
  \<open>fetch_definition\<close> reads. hello.py is the whole program and binds no such name, so in
  the program as written the field is \<open>None\<close> and reading it raises NameError.
\<close>

record world =
  feedparser_parse :: "pystr \<Rightarrow> entry list option"
  requests_get :: "pystr \<Rightarrow> response option"
  requests_post :: "pystr \<Rightarrow> (pystr \<times> pystr) list \<Rightarrow> response option"
  spacy_load :: "(pystr \<Rightarrow> token list) option"
  frequent_words_file :: "pystr list option"
  lexicon_defs :: "(pystr \<times> pystr) list option"
  random_below :: "nat \<Rightarrow> nat"

datatype request = GET pystr | POST pystr "(pystr \<times> pystr) list"

datatype error = NameError | ValueError

text \<open>
  How the body of a \<open>try\<close> block ends: at a \<open>return\<close>, by an exception (which the
  handler swallows), or by running off its end.
\<close>

datatype 'a attempt = Returned 'a | Raised | Fell_through

text \<open>
  What the program prints, one constructor per message (\<open>Banner\<close> is the three
  lines of the heading).
\<close>

datatype msg =
    RSSFetchError
  | SpacyUnavailable
  | NoArticlesFetched
  | ProcessingArticle nat nat
  | TotalCandidateTokens nat
  | NothingToProcess
  | Banner
  | Card pystr pystr pystr pystr

section \<open>fetch_definition\<close>

definition dictionary_url :: "pystr \<Rightarrow> pystr" where
  "dictionary_url wd = ascii ''https://api.dictionaryapi.dev/api/v2/entries/fr/'' @ wd"

definition wiktionary_raw_url :: "pystr \<Rightarrow> pystr" where
  "wiktionary_raw_url wd = ascii ''https://fr.wiktionary.org/wiki/'' @ wd @ ascii ''?action=raw&lang=fr''"

definition tatoeba_url :: "pystr \<Rightarrow> pystr" where
  "tatoeba_url wd = ascii ''https://tatoeba.org/en/api_v0/search?from=fra&query='' @ wd"

text \<open>First \<open>try\<close> block: the loop over the parts of speech of the first entry.\<close>

fun scan_meanings :: "pyval list \<Rightarrow> pystr attempt" where
  "scan_meanings [] = Fell_through"
| "scan_meanings (m # ms) =
     (case py_get m (ascii ''definitions'') (PList []) of
        None \<Rightarrow> Raised
      | Some defs \<Rightarrow>
          if truthy defs then
            (case py_first defs of
               None \<Rightarrow> Raised
             | Some d0 \<Rightarrow>
                (case py_get d0 (ascii ''definition'') PNone of
                   None \<Rightarrow> Raised
                 | Some v \<Rightarrow>
                     if truthy v then
                       (case py_strip v of None \<Rightarrow> Raised | Some s \<Rightarrow> Returned s)
                     else scan_meanings ms))
          else scan_meanings ms)"

definition dictionary_api :: "world \<Rightarrow> pystr \<Rightarrow> pystr attempt" where
  "dictionary_api env wd =
     (case requests_get env (dictionary_url wd) of
        None \<Rightarrow> Raised
      | Some r \<Rightarrow>
          if status_code r = 200 then
            (case resp_json r of
               None \<Rightarrow> Raised
             | Some j \<Rightarrow>
                (case py_first j of
                   None \<Rightarrow> Raised
                 | Some e \<Rightarrow>
                    (case py_get e (ascii ''meanings'') (PList []) of
                       None \<Rightarrow> Raised
                     | Some meanings \<Rightarrow>
                        (case py_iter meanings of
                           None \<Rightarrow> Raised
                         | Some ms \<Rightarrow> scan_meanings ms))))
          else Fell_through)"

text \<open>Second \<open>try\<close> block: the loop over the lines of the raw wiki page.\<close>

definition etymologie :: pystr where
  "etymologie = [233] @ ascii ''tymologie''"

fun scan_lines :: "(pystr \<Rightarrow> pystr) \<Rightarrow> pystr list \<Rightarrow> pystr attempt" where
  "scan_lines lower [] = Fell_through"
| "scan_lines lower (l # ls) =
     (let line = strip l
      in if startswith line [35] \<and> \<not> startswith line [35, 35] \<and> \<not> py_in etymologie (lower line) then
           (let clean = clean_wikicode (dropWhile (\<lambda>c. c = 35) line)
            in if clean \<noteq> [] then Returned (strip (takeWhile (\<lambda>c. c \<noteq> 46 \<and> c \<noteq> 59) clean))
               else scan_lines lower ls)
         else scan_lines lower ls)"

definition wiktionary_raw :: "(pystr \<Rightarrow> pystr) \<Rightarrow> world \<Rightarrow> pystr \<Rightarrow> pystr attempt" where
  "wiktionary_raw lower env wd =
     (case requests_get env (wiktionary_raw_url wd) of
        None \<Rightarrow> Raised
      | Some r \<Rightarrow>
          if status_code r = 200 then scan_lines lower (splitlines (resp_text r))
          else Fell_through)"

text \<open>Third \<open>try\<close> block: the first result of the sentence search.\<close>

definition tatoeba :: "world \<Rightarrow> pystr \<Rightarrow> pystr attempt" where
  "tatoeba env wd =
     (case requests_get env (tatoeba_url wd) of
        None \<Rightarrow> Raised
      | Some r \<Rightarrow>
          if status_code r = 200 then
            (case resp_json r of
               None \<Rightarrow> Raised
             | Some j \<Rightarrow>
                (case py_get j (ascii ''results'') (PList []) of
                   None \<Rightarrow> Raised
                 | Some results \<Rightarrow>
                     if truthy results then
                       (case py_first results of
                          None \<Rightarrow> Raised
                        | Some r0 \<Rightarrow>
                           (case py_get r0 (ascii ''text'') (PStr []) of
                              None \<Rightarrow> Raised
                            | Some t \<Rightarrow>
                               (case py_strip t of None \<Rightarrow> Raised | Some s \<Rightarrow> Returned s)))
                     else Fell_through))
          else Fell_through)"

text \<open>
  The last line reads the global \<open>lexicon_defs\<close> outside every \<open>try\<close> block. The result
  comes with the requests made, in order.
\<close>

definition fetch_definition ::
  "(pystr \<Rightarrow> pystr) \<Rightarrow> world \<Rightarrow> pystr \<Rightarrow> (error + pystr) \<times> request list" where
  "fetch_definition lower env wd =
     (case dictionary_api env wd of
        Returned s \<Rightarrow> (Inr s, [GET (dictionary_url wd)])
      | _ \<Rightarrow>
         (case wiktionary_raw lower env wd of
            Returned s \<Rightarrow> (Inr s, [GET (dictionary_url wd), GET (wiktionary_raw_url wd)])
          | _ \<Rightarrow>
             (case tatoeba env wd of
                Returned s \<Rightarrow>
                  (Inr s, [GET (dictionary_url wd), GET (wiktionary_raw_url wd), GET (tatoeba_url wd)])
              | _ \<Rightarrow>
                 ((case lexicon_defs env of
                     None \<Rightarrow> Inl NameError
                   | Some d \<Rightarrow> Inr (case map_of d (lower wd) of Some v \<Rightarrow> v | None \<Rightarrow> [])),
                  [GET (dictionary_url wd), GET (wiktionary_raw_url wd), GET (tatoeba_url wd)]))))"

section \<open>RSSScraper\<close>

text \<open>
  The object state: the feed list set by \<open>__init__\<close> and the sentences that \<open>run\<close>
  accumulates for \<open>find_example_sentence\<close>.
\<close>

record scraper =
  rss_feeds :: "pystr list"
  article_sentences :: "pystr list"

definition init_scraper :: scraper where
  "init_scraper = \<lparr>
     rss_feeds = [
       ascii ''https://www.france24.com/fr/rss'',
       ascii ''https://www.lemonde.fr/rss/une.xml'',
       ascii ''https://www.francetvinfo.fr/titres.rss'',
       ascii ''https://www.radiofrance.fr/rss/arts-et-culture'',
       ascii ''https://www.courrierinternational.com/feed/all/rss.xml'',
       ascii ''https://www.rfi.fr/fr/rss'',
       ascii ''https://www.sciencesetavenir.fr/rss.xml''],
     article_sentences = [] \<rparr>"

subsection \<open>fetch_articles_from_rss\<close>

text \<open>
  The inner loop over \<open>parsed.entries\<close>. The flag is \<open>True\<close> when the loop left the
  function through \<open>return articles\<close>; the cap is tested after the append.
\<close>

fun scan_entries :: "int \<Rightarrow> pystr list \<Rightarrow> entry list \<Rightarrow> pystr list \<times> bool" where
  "scan_entries max_articles articles [] = (articles, False)"
| "scan_entries max_articles articles (e # es) =
     (let articles' =
        (case summary e of
           Some s \<Rightarrow> articles @ [s]
         | None \<Rightarrow>
            (case description e of
               Some d \<Rightarrow> articles @ [d]
             | None \<Rightarrow> articles))
      in if int (length articles') \<ge> max_articles then (articles', True)
         else scan_entries max_articles articles' es)"

text \<open>The outer loop over \<open>self.rss_feeds\<close>; an exception skips the feed and is printed.\<close>

fun scan_feeds ::
  "(pystr \<Rightarrow> entry list option) \<Rightarrow> int \<Rightarrow> pystr list \<Rightarrow> msg list \<Rightarrow> pystr list \<Rightarrow> pystr list \<times> msg list" where
  "scan_feeds parse max_articles articles out [] = (articles, out)"
| "scan_feeds parse max_articles articles out (feed # feeds) =
     (case parse feed of
        None \<Rightarrow> scan_feeds parse max_articles articles (out @ [RSSFetchError]) feeds
      | Some entries \<Rightarrow>
         (case scan_entries max_articles articles entries of
            (articles', True) \<Rightarrow> (articles', out)
          | (articles', False) \<Rightarrow> scan_feeds parse max_articles articles' out feeds))"

definition fetch_articles_from_rss ::
  "(pystr \<Rightarrow> entry list option) \<Rightarrow> scraper \<Rightarrow> int \<Rightarrow> pystr list \<times> msg list" where
  "fetch_articles_from_rss parse self max_articles =
     scan_feeds parse max_articles [] [] (rss_feeds self)"

subsection \<open>clean_and_count_words\<close>

definition static_excluded :: "pystr set" where
  "static_excluded = set [
       ascii ''fran'' @ [231] @ ascii ''ais'',
       ascii ''fran'' @ [231] @ ascii ''aise'',
       ascii ''francais'',
       ascii ''am'' @ [233] @ ascii ''ricain'',
       ascii ''am'' @ [233] @ ascii ''ricaine'',
       ascii ''americain'',
       ascii ''france'',
       [233] @ ascii ''tats-unis'',
       ascii ''etats-unis'',
       ascii ''europe'',
       ascii ''paris'',
       ascii ''washington'',
       ascii ''macron'',
       ascii ''trump'',
       ascii ''biden'',
       ascii ''netanyahu'',
       ascii ''isra'' @ [235] @ ascii ''l'',
       ascii ''israel'',
       ascii ''palestine'',
       ascii ''gaza'',
       ascii ''ukraine'',
       ascii ''russie'',
       ascii ''russia'',
       ascii ''poutine'',
       ascii ''zelensky'',
       ascii ''onu'',
       ascii ''pays'',
       ascii ''ville'',
       ascii ''territoire'',
       ascii ''gouvernement'',
       ascii ''pr'' @ [233] @ ascii ''sident'',
       ascii ''pr'' @ [233] @ ascii ''sidente'',
       ascii ''avoir'',
       [234] @ ascii ''tre'',
       ascii ''faire'',
       ascii ''mettre'',
       ascii ''dire'',
       ascii ''aller'',
       ascii ''voir'',
       ascii ''donner'',
       ascii ''bon'',
       ascii ''mauvais'',
       ascii ''beau'',
       ascii ''grand'',
       ascii ''petit'',
       ascii ''important'',
       ascii ''nouveau'',
       ascii ''lundi'',
       ascii ''mardi'',
       ascii ''mercredi'',
       ascii ''jeudi'',
       ascii ''vendredi'',
       ascii ''samedi'',
       ascii ''dimanche'',
       ascii ''janvier'',
       ascii ''f'' @ [233] @ ascii ''vrier'',
       ascii ''mars'',
       ascii ''avril'',
       ascii ''mai'',
       ascii ''juin'',
       ascii ''juillet'',
       ascii ''ao'' @ [251] @ ascii ''t'',
       ascii ''septembre'',
       ascii ''octobre'',
       ascii ''novembre'',
       ascii ''d'' @ [233] @ ascii ''cembre'',
       ascii ''donc'',
       ascii ''mais'',
       ascii ''ou'',
       ascii ''et'',
       ascii ''car'',
       ascii ''cependant'',
       ascii ''pourtant'',
       ascii ''toutefois'',
       ascii ''ainsi'',
       ascii ''alors'',
       ascii ''puis'',
       ascii ''ensuite'',
       [233] @ ascii ''galement'']"

definition content_pos :: "pystr set" where
  "content_pos = {ascii ''NOUN'', ascii ''VERB'', ascii ''ADJ'', ascii ''ADV''}"

text \<open>The list comprehension over the tagged document.\<close>

fun comprehension ::
  "(pystr \<Rightarrow> pystr) \<Rightarrow> pystr set \<Rightarrow> pystr set \<Rightarrow> token list \<Rightarrow> (pystr \<times> pystr) list" where
  "comprehension lower advanced excluded_words [] = []"
| "comprehension lower advanced excluded_words (tok # doc) =
     (if tok_is_alpha tok
         \<and> tok_len tok > 6
         \<and> lower (tok_lemma tok) \<in> advanced
         \<and> tok_pos tok \<in> content_pos
         \<and> lower (tok_lemma tok) \<notin> excluded_words
      then (lower (tok_lemma tok), tok_pos tok) # comprehension lower advanced excluded_words doc
      else comprehension lower advanced excluded_words doc)"

definition common_words :: "(pystr \<Rightarrow> pystr) \<Rightarrow> world \<Rightarrow> pystr set" where
  "common_words lower env =
     (case frequent_words_file env of
        None \<Rightarrow> {}
      | Some f \<Rightarrow> set (map (\<lambda>l. lower (strip l)) (filter (\<lambda>l. strip l \<noteq> []) f)))"

definition clean_and_count_words ::
  "(pystr \<Rightarrow> pystr) \<Rightarrow> world \<Rightarrow> lexicon_row list \<Rightarrow> pystr \<Rightarrow> (pystr \<times> pystr) list \<times> msg list" where
  "clean_and_count_words lower env df text0 =
     (case spacy_load env of
        None \<Rightarrow> ([], [SpacyUnavailable])
      | Some nlp \<Rightarrow>
         (let excluded_words = static_excluded \<union> common_words lower env;
              doc = nlp text0
          in (comprehension lower (advanced_lemmas lower df) excluded_words doc, [])))"

subsection \<open>find_example_sentence\<close>

definition extract_url :: "pystr \<Rightarrow> pystr" where
  "extract_url wd =
     ascii ''https://fr.wiktionary.org/w/api.php?action=query&titles='' @ wd @
     ascii ''&prop=extracts&exsentences=1&explaintext=1&format=json''"

definition default_example :: "pystr \<Rightarrow> pystr" where
  "default_example wd =
     ascii ''Exemple par d'' @ [233] @ ascii ''faut : '' @ [39] @ wd @
     [39] @ ascii '' est un mot avanc'' @ [233] @ ascii '' '' @ [224] @ ascii '' conna'' @ [238] @ ascii ''tre.''"

text \<open>The loop over \<open>self.article_sentences\<close>.\<close>

fun scan_sentences :: "(pystr \<Rightarrow> pystr) \<Rightarrow> pystr \<Rightarrow> pystr list \<Rightarrow> pystr option" where
  "scan_sentences lower wd [] = None"
| "scan_sentences lower wd (s # ss) =
     (if py_in wd (lower s) then Some (strip s) else scan_sentences lower wd ss)"

text \<open>The loop over \<open>pages.values()\<close>.\<close>

fun scan_pages :: "pyval list \<Rightarrow> pystr attempt" where
  "scan_pages [] = Fell_through"
| "scan_pages (p # ps) =
     (case py_get p (ascii ''extract'') (PStr []) of
        None \<Rightarrow> Raised
      | Some (PStr t) \<Rightarrow>
          (let ext = takeWhile (\<lambda>c. c \<noteq> 46) t
           in if ext \<noteq> [] then Returned (ext @ [46]) else scan_pages ps)
      | Some v \<Rightarrow> Raised)"

definition wiki_extract :: "world \<Rightarrow> pystr \<Rightarrow> pystr attempt" where
  "wiki_extract env wd =
     (case requests_get env (extract_url wd) of
        None \<Rightarrow> Raised
      | Some r \<Rightarrow>
          if status_code r = 200 then
            (case resp_json r of
               None \<Rightarrow> Raised
             | Some j \<Rightarrow>
                (case py_get j (ascii ''query'') (PDict []) of
                   None \<Rightarrow> Raised
                 | Some q \<Rightarrow>
                    (case py_get q (ascii ''pages'') (PDict []) of
                       None \<Rightarrow> Raised
                     | Some pages \<Rightarrow>
                        (case py_values pages of
                           None \<Rightarrow> Raised
                         | Some ps \<Rightarrow> scan_pages ps))))
          else Fell_through)"

definition find_example_sentence ::
  "(pystr \<Rightarrow> pystr) \<Rightarrow> world \<Rightarrow> scraper \<Rightarrow> pystr \<Rightarrow> pystr \<times> request list" where
  "find_example_sentence lower env self wd =
     (case scan_sentences lower wd (article_sentences self) of
        Some s \<Rightarrow> (s, [])
      | None \<Rightarrow>
         (case wiki_extract env wd of
            Returned s \<Rightarrow> (s, [GET (extract_url wd)])
          | _ \<Rightarrow> (default_example wd, [GET (extract_url wd)])))"

subsection \<open>run\<close>

text \<open>\<open>re.split(r"[.!?]\s+", txt)\<close>.\<close>

function split_sentences_from :: "pystr \<Rightarrow> pystr \<Rightarrow> pystr list" where
  "split_sentences_from cur [] = [cur]"
| "split_sentences_from cur (c # cs) =
     (if (c = 46 \<or> c = 33 \<or> c = 63) \<and> cs \<noteq> [] \<and> is_space (hd cs)
      then cur # split_sentences_from [] (dropWhile is_space cs)
      else split_sentences_from (cur @ [c]) cs)"
  by pat_completeness auto
termination
  by (relation "measure (\<lambda>(cur, s). length s)")
     (auto simp: le_imp_less_Suc length_dropWhile_le)

definition split_sentences :: "pystr \<Rightarrow> pystr list" where
  "split_sentences txt = split_sentences_from [] txt"

text \<open>
  The loop over the articles: state is \<open>self.article_sentences\<close>, \<open>all_words\<close> and what
  has been printed. \<open>time.sleep(1)\<close> changes none of them.
\<close>

fun process_articles ::
  "(pystr \<Rightarrow> pystr) \<Rightarrow> world \<Rightarrow> lexicon_row list \<Rightarrow> nat \<Rightarrow> nat \<Rightarrow> pystr list \<Rightarrow>
   pystr list \<times> (pystr \<times> pystr) list \<times> msg list \<Rightarrow>
   pystr list \<times> (pystr \<times> pystr) list \<times> msg list" where
  "process_articles lower env df n i [] st = st"
| "process_articles lower env df n i (txt # txts) (sentences, all_words, out) =
     (case clean_and_count_words lower env df txt of
        (cands, said) \<Rightarrow>
          process_articles lower env df n (Suc i) txts
            (sentences @ split_sentences txt, all_words @ cands, out @ [ProcessingArticle i n] @ said))"

text \<open>
  \<open>Counter(all_words)\<close>: a dict in order of first insertion. \<open>uniques\<close> reads its items
  in that order.
\<close>

fun counter_add :: "'a \<Rightarrow> ('a \<times> nat) list \<Rightarrow> ('a \<times> nat) list" where
  "counter_add x [] = [(x, 1)]"
| "counter_add x ((y, c) # rest) =
     (if x = y then (y, c + 1) # rest else (y, c) # counter_add x rest)"

definition Counter :: "'a list \<Rightarrow> ('a \<times> nat) list" where
  "Counter xs = foldl (\<lambda>counts x. counter_add x counts) [] xs"

definition uniques_of :: "'a list \<Rightarrow> 'a list" where
  "uniques_of all_words = map fst (filter (\<lambda>kc. snd kc = 1) (Counter all_words))"

text \<open>
  \<open>random.sample(population, k)\<close> of the standard library: ValueError (\<open>None\<close>) when
  \<open>k\<close> exceeds the population, else \<open>k\<close> picks without replacement. Pick number \<open>i\<close> takes
  position \<open>random_below i mod n\<close> of the \<open>n\<close> items still in the pool and moves the last
  item of the pool into the gap. (For large populations CPython picks positions by
  rejection instead; either way the result is the items at \<open>k\<close> distinct positions, in
  pick order, and every such choice arises from some stream of draws.)
\<close>

fun sample_pool :: "(nat \<Rightarrow> nat) \<Rightarrow> nat \<Rightarrow> 'a list \<Rightarrow> nat \<Rightarrow> 'a list" where
  "sample_pool rand i pool 0 = []"
| "sample_pool rand i pool (Suc k) =
     (if pool = [] then []
      else (let j = rand i mod length pool
            in pool ! j # sample_pool rand (Suc i) (butlast (pool[j := last pool])) k))"

definition random_sample :: "(nat \<Rightarrow> nat) \<Rightarrow> 'a list \<Rightarrow> nat \<Rightarrow> 'a list option" where
  "random_sample rand population k =
     (if k > length population then None else Some (sample_pool rand 0 population k))"

text \<open>Lines 292 to 294 of \<open>run\<close>: count, keep the singletons, sample, sort by lemma.\<close>

definition sample_rarities ::
  "(nat \<Rightarrow> nat) \<Rightarrow> (pystr \<times> pystr) list \<Rightarrow> (pystr \<times> pystr) list option" where
  "sample_rarities rand all_words =
     (let uniques = uniques_of all_words
      in case random_sample rand uniques (min 30 (length uniques)) of
           None \<Rightarrow> None
         | Some chosen \<Rightarrow> Some (sort_key fst chosen))"

definition placeholder :: pystr where
  "placeholder = ascii ''(d'' @ [233] @ ascii ''finition indisponible)''"

definition translate_url :: pystr where
  "translate_url = ascii ''https://libretranslate.com/translate''"

text \<open>The translation \<open>try\<close> block; \<open>english\<close> stays \<open>""\<close> when anything in it raises.\<close>

definition translate :: "world \<Rightarrow> pystr \<Rightarrow> pyval \<times> request list" where
  "translate env defn =
     (let data = [(ascii ''q'', defn), (ascii ''source'', ascii ''fr''), (ascii ''target'', ascii ''en'')]
      in ((case requests_post env translate_url data of
             None \<Rightarrow> PStr []
           | Some r \<Rightarrow>
              (case resp_json r of
                 None \<Rightarrow> PStr []
               | Some tr \<Rightarrow>
                  (case py_get tr (ascii ''translatedText'') (PStr []) of
                     None \<Rightarrow> PStr []
                   | Some english \<Rightarrow> english))),
          [POST translate_url data]))"

text \<open>
  A flashcard is the tuple \<open>(word, definition, sentence, english)\<close>. The loop over the
  sample stops at the first exception that leaves \<open>fetch_definition\<close>.
\<close>

type_synonym flashcard = "pystr \<times> pystr \<times> pystr \<times> pyval"

fun make_cards ::
  "(pystr \<Rightarrow> pystr) \<Rightarrow> world \<Rightarrow> scraper \<Rightarrow> (pystr \<times> pystr) list \<Rightarrow>
   flashcard list \<times> msg list \<times> request list \<Rightarrow>
   (flashcard list \<times> msg list \<times> request list) \<times> error option" where
  "make_cards lower env self [] acc = (acc, None)"
| "make_cards lower env self ((wd, pos) # rest) (flashcards, out, reqs) =
     (case fetch_definition lower env wd of
        (Inl e, reqs1) \<Rightarrow> ((flashcards, out, reqs @ reqs1), Some e)
      | (Inr d, reqs1) \<Rightarrow>
         (let defn = (if d \<noteq> [] then d else placeholder);
              found = find_example_sentence lower env self wd;
              tr = (if defn \<noteq> [] \<and> defn \<noteq> placeholder then translate env defn else (PStr [], []))
          in make_cards lower env self rest
               (flashcards @ [(wd, defn, fst found, fst tr)],
                out @ [Card wd pos defn (fst found)],
                reqs @ reqs1 @ snd found @ snd tr)))"

text \<open>
  What a call of \<open>run\<close> leaves behind: the printed messages, the requests made, the
  sentences held by the object, the rows written to
  \<open>data/advanced_flashcard_words.tsv\<close> below its header line (\<open>None\<close> when the file is
  not opened), and the exception that ended the call, if any.
\<close>

record outcome =
  printed :: "msg list"
  requested :: "request list"
  sentences_held :: "pystr list"
  written :: "flashcard list option"
  raised :: "error option"

definition run ::
  "(pystr \<Rightarrow> pystr) \<Rightarrow> world \<Rightarrow> lexicon_row list \<Rightarrow> scraper \<Rightarrow> int \<Rightarrow> outcome" where
  "run lower env df self max_articles =
     (case fetch_articles_from_rss (feedparser_parse env) self max_articles of
        (articles, out0) \<Rightarrow>
          if articles = [] then
            \<lparr>printed = out0 @ [NoArticlesFetched], requested = [],
             sentences_held = article_sentences self, written = None, raised = None\<rparr>
          else
            (case process_articles lower env df (length articles) 1 articles
                    (article_sentences self, [], out0) of
               (sentences, all_words, out1) \<Rightarrow>
                 if all_words = [] then
                   \<lparr>printed = out1 @ [TotalCandidateTokens (length all_words), NothingToProcess],
                    requested = [],
                    sentences_held = sentences, written = None, raised = None\<rparr>
                 else
                   (case sample_rarities (random_below env) all_words of
                      None \<Rightarrow>
                        \<lparr>printed = out1 @ [TotalCandidateTokens (length all_words)], requested = [],
                         sentences_held = sentences, written = None, raised = Some ValueError\<rparr>
                    | Some sample \<Rightarrow>
                       (case make_cards lower env (self\<lparr>article_sentences := sentences\<rparr>) sample
                               ([], out1 @ [TotalCandidateTokens (length all_words), Banner], []) of
                          ((flashcards, out2, reqs), Some e) \<Rightarrow>
                            \<lparr>printed = out2, requested = reqs,
                             sentences_held = sentences, written = None, raised = Some e\<rparr>
                        | ((flashcards, out2, reqs), None) \<Rightarrow>
                            \<lparr>printed = out2, requested = reqs,
                             sentences_held = sentences, written = Some flashcards, raised = None\<rparr>))))"

section \<open>Vocabulary of the specification and sample inputs\<close>

text \<open>
  The exclusion set of the specification: the built-in list joined with the external
  word list.
\<close>

definition exclusion_set :: "(pystr \<Rightarrow> pystr) \<Rightarrow> world \<Rightarrow> pystr set" where
  "exclusion_set lower env = static_excluded \<union> common_words lower env"

text \<open>The five conditions of the specification for a token to become a candidate.\<close>

definition is_candidate :: "(pystr \<Rightarrow> pystr) \<Rightarrow> pystr set \<Rightarrow> pystr set \<Rightarrow> token \<Rightarrow> bool" where
  "is_candidate lower advanced exclusion tok \<longleftrightarrow>
     tok_is_alpha tok \<and> 6 < tok_len tok \<and> lower (tok_lemma tok) \<in> advanced \<and>
     tok_pos tok \<in> {ascii ''NOUN'', ascii ''VERB'', ascii ''ADJ'', ascii ''ADV''} \<and>
     lower (tok_lemma tok) \<notin> exclusion"

text \<open>
  \<open>counts_of cs xs\<close>: the dict \<open>cs\<close> has one item per distinct element of \<open>xs\<close> and maps
  it to its number of occurrences.
\<close>

definition counts_of :: "('a \<times> nat) list \<Rightarrow> 'a list \<Rightarrow> bool" where
  "counts_of cs xs \<longleftrightarrow>
     distinct (map fst cs) \<and>
     (\<forall>y. map_of cs y = (if y \<in> set xs then Some (count_list xs y) else None))"

text \<open>
  A part of speech that the loop of the first source passes over without raising: a dict
  whose \<open>definitions\<close> are absent or falsy, or a list whose first item is a dict with
  an absent or falsy \<open>definition\<close>.
\<close>

fun no_first_definition :: "pyval \<Rightarrow> bool" where
  "no_first_definition (PList (PDict d # ds)) =
     (case map_of d (ascii ''definition'') of None \<Rightarrow> True | Some v \<Rightarrow> \<not> truthy v)"
| "no_first_definition defs = (\<not> truthy defs)"

fun passed_over :: "pyval \<Rightarrow> bool" where
  "passed_over (PDict kvs) =
     (case map_of kvs (ascii ''definitions'') of
        None \<Rightarrow> True
      | Some defs \<Rightarrow> no_first_definition defs)"
| "passed_over v = False"

text \<open>
  All remote sources are stubbed to fail: every GET raises or answers with a status other
  than 200.
\<close>

definition remote_down :: "world \<Rightarrow> bool" where
  "remote_down env \<longleftrightarrow>
     (\<forall>url. case requests_get env url of None \<Rightarrow> True | Some r \<Rightarrow> status_code r \<noteq> 200)"

text \<open>Two rows of one word under different tags, as FLELex has them.\<close>

definition homograph_rows :: "lexicon_row list" where
  "homograph_rows =
     [\<lparr>word = ascii ''sourire'', freq_total = Finite 50, freq_C2 = Finite 1\<rparr>,
      \<lparr>word = ascii ''sourire'', freq_total = Finite 600, freq_C2 = Finite 3\<rparr>]"

text \<open>Rows whose frequencies are not finite: only the first two pass the filter.\<close>

definition nonfinite_rows :: "lexicon_row list" where
  "nonfinite_rows =
     [\<lparr>word = ascii ''abcdefgh'', freq_total = Finite 50, freq_C2 = PosInf\<rparr>,
      \<lparr>word = ascii ''bcdefghi'', freq_total = NegInf, freq_C2 = Finite 1\<rparr>,
      \<lparr>word = ascii ''cdefghij'', freq_total = NaN, freq_C2 = Finite 1\<rparr>,
      \<lparr>word = ascii ''defghijk'', freq_total = Finite 50, freq_C2 = NaN\<rparr>,
      \<lparr>word = ascii ''efghijkl'', freq_total = PosInf, freq_C2 = Finite 1\<rparr>,
      \<lparr>word = ascii ''fghijklm'', freq_total = Finite 50, freq_C2 = NegInf\<rparr>]"

text \<open>
  The candidates of the end-to-end scenario of the specification: \<open>environnement\<close> once,
  \<open>considerable\<close> twice, \<open>degringoler\<close> once (each with its e acute, code point 233).
\<close>

definition degringoler :: pystr where
  "degringoler = ascii ''d'' @ [233] @ ascii ''gringoler''"

definition considerable :: pystr where
  "considerable = ascii ''consid'' @ [233] @ ascii ''rable''"

definition scenario_words :: "(pystr \<times> pystr) list" where
  "scenario_words =
     [(ascii ''environnement'', ascii ''NOUN''),
      (considerable, ascii ''ADJ''),
      (degringoler, ascii ''VERB''),
      (considerable, ascii ''ADJ'')]"

text \<open>A small lexicon; its last row fails the frequency bound.\<close>

definition sample_lexicon :: "lexicon_row list" where
  "sample_lexicon =
     [\<lparr>word = ascii ''environnement'', freq_total = Finite 20, freq_C2 = Finite 2\<rparr>,
      \<lparr>word = ascii ''gouvernement'', freq_total = Finite 90, freq_C2 = Finite 1\<rparr>,
      \<lparr>word = degringoler, freq_total = Finite 3, freq_C2 = Finite 1\<rparr>,
      \<lparr>word = ascii ''gouvernemental'', freq_total = Finite 150, freq_C2 = Finite 1\<rparr>]"

text \<open>
  A stubbed world: every feed holds one entry whose summary is \<open>article\<close>, the tagger
  answers \<open>toks\<close> for every text, every HTTP call raises, the word-list file is missing,
  every random draw is 0, and the global \<open>lexicon_defs\<close> is bound as given (\<open>None\<close>, as in
  the program, or a dict).
\<close>

definition stub_world :: "pystr \<Rightarrow> token list \<Rightarrow> (pystr \<times> pystr) list option \<Rightarrow> world" where
  "stub_world article toks defs =
     \<lparr>feedparser_parse = (\<lambda>feed. Some [\<lparr>summary = Some article, description = None\<rparr>]),
      requests_get = (\<lambda>url. None),
      requests_post = (\<lambda>url data. None),
      spacy_load = Some (\<lambda>text0. toks),
      frequent_words_file = None,
      lexicon_defs = defs,
      random_below = (\<lambda>i. 0)\<rparr>"

text \<open>
  Six tokens: the first meets all five conditions; each of the others fails exactly one
  (not alphabetic, too short, lemma not advanced, wrong part of speech, lemma excluded).
\<close>

definition six_tokens :: "token list" where
  "six_tokens =
     [\<lparr>tok_lemma = ascii ''Environnement'', tok_pos = ascii ''NOUN'', tok_is_alpha = True, tok_len = 14\<rparr>,
      \<lparr>tok_lemma = ascii ''environnement'', tok_pos = ascii ''NOUN'', tok_is_alpha = False, tok_len = 14\<rparr>,
      \<lparr>tok_lemma = ascii ''environnement'', tok_pos = ascii ''NOUN'', tok_is_alpha = True, tok_len = 6\<rparr>,
      \<lparr>tok_lemma = ascii ''gouvernemental'', tok_pos = ascii ''ADJ'', tok_is_alpha = True, tok_len = 14\<rparr>,
      \<lparr>tok_lemma = ascii ''environnement'', tok_pos = ascii ''PROPN'', tok_is_alpha = True, tok_len = 13\<rparr>,
      \<lparr>tok_lemma = ascii ''gouvernement'', tok_pos = ascii ''NOUN'', tok_is_alpha = True, tok_len = 12\<rparr>]"

text \<open>An article whose two tokens yield the same candidate, and two with one candidate.\<close>

definition twice_tokens :: "token list" where
  "twice_tokens =
     [\<lparr>tok_lemma = ascii ''environnement'', tok_pos = ascii ''NOUN'', tok_is_alpha = True, tok_len = 13\<rparr>,
      \<lparr>tok_lemma = ascii ''environnement'', tok_pos = ascii ''NOUN'', tok_is_alpha = True, tok_len = 14\<rparr>]"

definition verb_token :: token where
  "verb_token = \<lparr>tok_lemma = degringoler, tok_pos = ascii ''VERB'', tok_is_alpha = True, tok_len = 12\<rparr>"

definition noun_token :: token where
  "noun_token = \<lparr>tok_lemma = ascii ''Environnement'', tok_pos = ascii ''NOUN'', tok_is_alpha = True, tok_len = 13\<rparr>"

definition verb_article :: pystr where
  "verb_article = ascii ''Les prix d'' @ [233] @ ascii ''gringolent. Tout baisse''"

definition noun_article :: pystr where
  "noun_article = ascii ''  Un environnement sain.  Rien de plus''"

text \<open>Answers of the dictionary API and of the wiki extract API, and a sentence store.\<close>

definition dictionary_answer :: response where
  "dictionary_answer =
     \<lparr>status_code = 200, resp_text = [],
      resp_json = Some (PList [PDict
        [(ascii ''word'', PStr (ascii ''bonjour'')),
         (ascii ''meanings'', PList
            [PDict [(ascii ''partOfSpeech'', PStr (ascii ''interjection'')),
                    (ascii ''definitions'', PList [])],
             PDict [(ascii ''partOfSpeech'', PStr (ascii ''nom'')),
                    (ascii ''definitions'', PList
                       [PDict [(ascii ''definition'', PStr (ascii '' Salutation du jour. ''))],
                        PDict [(ascii ''definition'', PStr (ascii ''Autre sens.''))]])]])]])\<rparr>"

definition extract_answer :: response where
  "extract_answer =
     \<lparr>status_code = 200, resp_text = [],
      resp_json = Some (PDict [(ascii ''query'', PDict [(ascii ''pages'', PDict
        [(ascii ''42'', PDict [(ascii ''extract'', PStr (ascii ''Autre phrase. Suite''))])])])])\<rparr>"

definition empty_extract_answer :: response where
  "empty_extract_answer =
     \<lparr>status_code = 200, resp_text = [],
      resp_json = Some (PDict [(ascii ''query'', PDict [(ascii ''pages'', PDict
        [(ascii ''-1'', PDict [(ascii ''title'', PStr (ascii ''maison''))])])])])\<rparr>"

definition three_sentences :: "pystr list" where
  "three_sentences =
     [ascii ''Rien ici'', ascii ''  Un Environnement sain '', ascii ''environnement encore'']"

text \<open>What the stubbed world answers.\<close>

lemma stub_world_fetch:
  "fetch_articles_from_rss (feedparser_parse (stub_world article toks defs)) init_scraper 1 =
     ([article], [])"
  by (simp add: fetch_articles_from_rss_def stub_world_def init_scraper_def)

lemma stub_world_down: "remote_down (stub_world article toks defs)"
  by (simp add: remote_down_def stub_world_def)

lemma stub_world_fields:
  "lexicon_defs (stub_world article toks defs) = defs"
  "spacy_load (stub_world article toks defs) = Some (\<lambda>text0. toks)"
  by (simp_all add: stub_world_def)

section \<open>Properties of the lexicon filter\<close>

text \<open>
  C4 (as stated, refuted). The second row below does not pass the filter
  (\<open>freq_total\<close> is 600), yet its word, lowercased or not, is in the set, because the
  first row of the same word passes.
\<close>

theorem advanced_lemmas_row_iff_counterexample:
  "\<lparr>word = ascii ''sourire'', freq_total = Finite 600, freq_C2 = Finite 3\<rparr> \<in> set homograph_rows \<and>
   ascii_lower (ascii ''sourire'') = ascii ''sourire'' \<and>
   ascii ''sourire'' \<in> advanced_lemmas ascii_lower homograph_rows \<and>
   \<not> rare_mask \<lparr>word = ascii ''sourire'', freq_total = Finite 600, freq_C2 = Finite 3\<rparr>"
  by (simp add: homograph_rows_def advanced_lemmas_def rare_mask_def ascii_def ascii_lower_def)

text \<open>
  C4 (amended). A string is in the advanced-lemma set if and only if it is the lowercased
  word of some row with \<open>freq_C2 > 0\<close>, \<open>freq_total < 100\<close> and a word of more than 6
  characters (counted before lowercasing). In particular the lowercased word of every
  such row is in the set. The comparisons are those of floats: \<open>freq_C2 > 0\<close> holds for
  a positive number and for \<open>+inf\<close>, \<open>freq_total < 100\<close> for a number below 100 and for
  \<open>-inf\<close>, and neither holds for NaN.
\<close>

theorem advanced_lemmas_members:
  "(wd \<in> advanced_lemmas lower df \<longleftrightarrow>
      (\<exists>r \<in> set df. ((\<exists>c. freq_C2 r = Finite c \<and> 0 < c) \<or> freq_C2 r = PosInf) \<and>
                      ((\<exists>t. freq_total r = Finite t \<and> t < 100) \<or> freq_total r = NegInf) \<and>
                      6 < length (word r) \<and> wd = lower (word r))) \<and>
   (\<forall>r \<in> set df. ((\<exists>c. freq_C2 r = Finite c \<and> 0 < c) \<or> freq_C2 r = PosInf) \<and>
                      ((\<exists>t. freq_total r = Finite t \<and> t < 100) \<or> freq_total r = NegInf) \<and>
                      6 < length (word r) \<longrightarrow> lower (word r) \<in> advanced_lemmas lower df)"
proof -
  have pos: "\<And>f. float_less (Finite 0) f = ((\<exists>c. f = Finite c \<and> 0 < c) \<or> f = PosInf)"
  proof -
    fix f show "float_less (Finite 0) f = ((\<exists>c. f = Finite c \<and> 0 < c) \<or> f = PosInf)"
      by (cases f) simp_all
  qed
  have low: "\<And>f. float_less f (Finite 100) = ((\<exists>t. f = Finite t \<and> t < 100) \<or> f = NegInf)"
  proof -
    fix f show "float_less f (Finite 100) = ((\<exists>t. f = Finite t \<and> t < 100) \<or> f = NegInf)"
      by (cases f) simp_all
  qed
  have sel: "\<And>r. rare_mask r =
                 (((\<exists>c. freq_C2 r = Finite c \<and> 0 < c) \<or> freq_C2 r = PosInf) \<and>
                  ((\<exists>t. freq_total r = Finite t \<and> t < 100) \<or> freq_total r = NegInf) \<and>
                  6 < length (word r))"
    by (simp only: rare_mask_def pos low)
  show ?thesis
    unfolding advanced_lemmas_def by (auto simp: sel)
qed

lemma nonfinite_rows_set:
  "advanced_lemmas ascii_lower nonfinite_rows = {ascii ''abcdefgh'', ascii ''bcdefghi''}"
  by (simp add: nonfinite_rows_def advanced_lemmas_def rare_mask_def ascii_def ascii_lower_def)

theorem advanced_lemmas_members_witness:
  "ascii ''sourire'' \<in> advanced_lemmas ascii_lower homograph_rows \<and>
   ascii ''abcdefgh'' \<in> advanced_lemmas ascii_lower nonfinite_rows \<and>
   ascii ''cdefghij'' \<notin> advanced_lemmas ascii_lower nonfinite_rows"
  using advanced_lemmas_members [of "ascii ''sourire''" ascii_lower homograph_rows]
    advanced_lemmas_members [of "ascii ''abcdefgh''" ascii_lower nonfinite_rows]
    advanced_lemmas_members [of "ascii ''cdefghij''" ascii_lower nonfinite_rows]
  by (simp add: homograph_rows_def nonfinite_rows_def ascii_def ascii_lower_def)

section \<open>Properties of clean_and_count_words\<close>

lemma comprehension_filter:
  "comprehension lower advanced excluded doc =
     map (\<lambda>tok. (lower (tok_lemma tok), tok_pos tok))
       (filter (is_candidate lower advanced excluded) doc)"
  by (induction doc) (simp_all add: is_candidate_def content_pos_def)

lemma clean_and_count_words_filter:
  "spacy_load env = Some nlp \<Longrightarrow>
     clean_and_count_words lower env df text0 =
       (map (\<lambda>tok. (lower (tok_lemma tok), tok_pos tok))
          (filter (is_candidate lower (advanced_lemmas lower df) (exclusion_set lower env)) (nlp text0)), [])"
  by (simp add: clean_and_count_words_def comprehension_filter exclusion_set_def)

text \<open>
  C5. With the tagger loaded, the candidates of a text are exactly its tokens that meet
  all five conditions, in token order, each as the pair of lowercased lemma and part of
  speech; a token that fails one condition yields nothing.
\<close>

theorem candidates_iff_five_predicates:
  "spacy_load env = Some nlp \<Longrightarrow>
     fst (clean_and_count_words lower env df text0) =
       map (\<lambda>tok. (lower (tok_lemma tok), tok_pos tok))
         (filter (is_candidate lower (advanced_lemmas lower df) (exclusion_set lower env)) (nlp text0))"
  by (simp add: clean_and_count_words_def comprehension_filter exclusion_set_def)

lemma six_tokens_candidates:
  "clean_and_count_words ascii_lower (stub_world article six_tokens defs) sample_lexicon article =
     ([(ascii ''environnement'', ascii ''NOUN'')], [])"
  by (simp add: clean_and_count_words_def stub_world_def six_tokens_def sample_lexicon_def
        advanced_lemmas_def rare_mask_def common_words_def static_excluded_def content_pos_def
        ascii_lower_def ascii_def degringoler_def)

theorem candidates_iff_five_predicates_witness:
  "fst (clean_and_count_words ascii_lower (stub_world [] six_tokens None) sample_lexicon []) =
     [(ascii ''environnement'', ascii ''NOUN'')] \<and>
   map (\<lambda>tok. (ascii_lower (tok_lemma tok), tok_pos tok))
     (filter (is_candidate ascii_lower (advanced_lemmas ascii_lower sample_lexicon)
                (exclusion_set ascii_lower (stub_world [] six_tokens None))) six_tokens) =
     [(ascii ''environnement'', ascii ''NOUN'')]"
proof -
  have "spacy_load (stub_world [] six_tokens None) = Some (\<lambda>text0. six_tokens)"
    by (simp add: stub_world_fields)
  from candidates_iff_five_predicates [OF this, of ascii_lower sample_lexicon "[]"]
  show ?thesis by (simp add: six_tokens_candidates)
qed

lemma twice_tokens_candidates:
  "clean_and_count_words ascii_lower (stub_world article twice_tokens defs) sample_lexicon article =
     ([(ascii ''environnement'', ascii ''NOUN''), (ascii ''environnement'', ascii ''NOUN'')], [])"
  by (simp add: clean_and_count_words_def stub_world_def twice_tokens_def sample_lexicon_def
        advanced_lemmas_def rare_mask_def common_words_def static_excluded_def content_pos_def
        ascii_lower_def ascii_def degringoler_def)

lemma verb_token_candidates:
  "clean_and_count_words ascii_lower (stub_world article [verb_token] defs)
       sample_lexicon article = ([(degringoler, ascii ''VERB'')], [])"
  by (simp add: clean_and_count_words_def stub_world_def verb_token_def sample_lexicon_def
        advanced_lemmas_def rare_mask_def common_words_def static_excluded_def content_pos_def
        ascii_lower_def ascii_def degringoler_def)

lemma verb_token_candidate:
  "filter (is_candidate ascii_lower (advanced_lemmas ascii_lower sample_lexicon)
             (exclusion_set ascii_lower (stub_world article [verb_token] defs)))
      [verb_token] = [verb_token]"
  by (simp add: is_candidate_def exclusion_set_def stub_world_def verb_token_def sample_lexicon_def
        advanced_lemmas_def rare_mask_def common_words_def static_excluded_def
        ascii_lower_def ascii_def degringoler_def)

lemma noun_token_candidate:
  "filter (is_candidate ascii_lower (advanced_lemmas ascii_lower sample_lexicon)
             (exclusion_set ascii_lower (stub_world article [noun_token] defs)))
      [noun_token] = [noun_token]"
  by (simp add: is_candidate_def exclusion_set_def stub_world_def noun_token_def sample_lexicon_def
        advanced_lemmas_def rare_mask_def common_words_def static_excluded_def
        ascii_lower_def ascii_def degringoler_def)

section \<open>Properties of the rarity sample\<close>

lemma counter_add_keys:
  "map fst (counter_add x cs) = (if x \<in> set (map fst cs) then map fst cs else map fst cs @ [x])"
proof (induction cs)
  case Nil
  show ?case by simp
next
  case (Cons kc cs)
  obtain y c where kc: "kc = (y, c)" by (cases kc)
  show ?case
  proof (cases "x = y")
    case True
    with kc show ?thesis by simp
  next
    case False
    with kc Cons.IH show ?thesis by (cases "x \<in> set (map fst cs)") simp_all
  qed
qed

lemma counter_add_distinct:
  "distinct (map fst cs) \<Longrightarrow> distinct (map fst (counter_add x cs))"
  by (simp add: counter_add_keys)

lemma counter_add_lookup:
  "map_of (counter_add x cs) y =
     (if y = x then Some (case map_of cs x of None \<Rightarrow> 1 | Some c \<Rightarrow> c + 1) else map_of cs y)"
  by (induction cs) auto

lemma counts_of_add: "counts_of cs xs \<Longrightarrow> counts_of (counter_add x cs) (xs @ [x])"
  unfolding counts_of_def
  by (auto simp: counter_add_distinct counter_add_lookup)

lemma counts_of_foldl:
  "counts_of cs ys \<Longrightarrow> counts_of (foldl (\<lambda>counts x. counter_add x counts) cs xs) (ys @ xs)"
proof (induction xs arbitrary: cs ys)
  case Nil
  then show ?case by simp
next
  case (Cons x xs)
  from counts_of_add [OF Cons.prems, of x]
  have "counts_of (counter_add x cs) (ys @ [x])" .
  from Cons.IH [OF this] show ?case by simp
qed

lemma counts_of_Counter: "counts_of (Counter xs) xs"
  using counts_of_foldl [of "[]" "[]" xs] by (simp add: Counter_def counts_of_def)

lemma uniques_of_set: "set (uniques_of xs) = {x. count_list xs x = 1}"
proof -
  have c: "counts_of (Counter xs) xs" by (rule counts_of_Counter)
  then have d: "distinct (map fst (Counter xs))"
    and m: "\<And>y. map_of (Counter xs) y = (if y \<in> set xs then Some (count_list xs y) else None)"
    by (simp_all add: counts_of_def)
  have in_iff: "\<And>k c. (k, c) \<in> set (Counter xs) \<longleftrightarrow> map_of (Counter xs) k = Some c"
    using d by simp
  show ?thesis
  proof (rule set_eqI)
    fix x
    have "x \<in> set (uniques_of xs) \<longleftrightarrow> (x, 1) \<in> set (Counter xs)"
      by (force simp: uniques_of_def)
    also have "\<dots> \<longleftrightarrow> map_of (Counter xs) x = Some 1" by (rule in_iff)
    also have "\<dots> \<longleftrightarrow> count_list xs x = 1"
      by (auto simp: m count_list_0_iff split: if_splits)
    finally show "x \<in> set (uniques_of xs) \<longleftrightarrow> x \<in> {x. count_list xs x = 1}" by simp
  qed
qed

lemma uniques_of_distinct: "distinct (uniques_of xs)"
proof -
  have "distinct (map fst (Counter xs))"
    using counts_of_Counter [of xs] by (simp add: counts_of_def)
  then show ?thesis
    unfolding uniques_of_def by (rule distinct_map_filter)
qed

lemma uniques_of_length: "length (uniques_of xs) = card {x. count_list xs x = 1}"
  using distinct_card [OF uniques_of_distinct, of xs] by (simp add: uniques_of_set)

lemma pool_step_set: "pool \<noteq> [] \<Longrightarrow> set (butlast (pool[j := last pool])) \<subseteq> set pool"
proof
  fix x assume ne: "pool \<noteq> []" and x: "x \<in> set (butlast (pool[j := last pool]))"
  from x have "x \<in> set (pool[j := last pool])" by (rule in_set_butlastD)
  with set_update_subset_insert [of pool j "last pool"]
  have "x \<in> insert (last pool) (set pool)" by blast
  with ne show "x \<in> set pool" by auto
qed

lemma sample_pool_length:
  "k \<le> length pool \<Longrightarrow> length (sample_pool rand i pool k) = k"
proof (induction k arbitrary: i pool)
  case 0
  then show ?case by simp
next
  case (Suc k)
  then have ne: "pool \<noteq> []" by auto
  have "k \<le> length (butlast (pool[rand i mod length pool := last pool]))"
    using Suc.prems by simp
  from Suc.IH [OF this] ne show ?case by (simp add: Let_def)
qed

lemma sample_pool_set:
  "set (sample_pool rand i pool k) \<subseteq> set pool"
proof (induction k arbitrary: i pool)
  case 0
  then show ?case by simp
next
  case (Suc k)
  show ?case
  proof (cases "pool = []")
    case True
    then show ?thesis by simp
  next
    case False
    let ?j = "rand i mod length pool"
    from False have j: "?j < length pool" by simp
    have "set (sample_pool rand (Suc i) (butlast (pool[?j := last pool])) k)
            \<subseteq> set (butlast (pool[?j := last pool]))" by (rule Suc.IH)
    also have "\<dots> \<subseteq> set pool" using False by (rule pool_step_set)
    finally show ?thesis using False j by (simp add: Let_def)
  qed
qed

lemma pool_step_distinct:
  assumes "distinct pool" and "j < length pool"
  shows "distinct (butlast (pool[j := last pool])) \<and> pool ! j \<notin> set (butlast (pool[j := last pool]))"
proof -
  from assms(2) have ne: "pool \<noteq> []" by auto
  define b where "b = butlast pool"
  define l where "l = last pool"
  from ne have pool: "pool = b @ [l]" by (simp add: b_def l_def)
  from assms(1) pool have db: "distinct b" and lb: "l \<notin> set b" by simp_all
  show ?thesis
  proof (cases "j = length b")
    case True
    with pool have "butlast (pool[j := last pool]) = b" by (simp add: l_def [symmetric])
    moreover from True pool have "pool ! j = l" by simp
    ultimately show ?thesis using db lb by simp
  next
    case False
    with assms(2) pool have j: "j < length b" by simp
    with pool have step: "butlast (pool[j := last pool]) = b[j := l]"
      by (simp add: l_def [symmetric] list_update_append)
    from j pool have pj: "pool ! j = b ! j" by (simp add: nth_append)
    from db lb have "distinct (b[j := l])" by (simp add: distinct_list_update)
    moreover have "b ! j \<notin> set (b[j := l])"
    proof -
      from db j have "set (b[j := l]) = insert l (set b - {b ! j})" by (rule set_update_distinct)
      moreover from j lb have "b ! j \<noteq> l" by (metis nth_mem)
      ultimately show ?thesis by simp
    qed
    ultimately show ?thesis by (simp add: step pj)
  qed
qed

lemma sample_pool_distinct:
  "distinct pool \<Longrightarrow> distinct (sample_pool rand i pool k)"
proof (induction k arbitrary: i pool)
  case 0
  then show ?case by simp
next
  case (Suc k)
  show ?case
  proof (cases "pool = []")
    case True
    then show ?thesis by simp
  next
    case False
    let ?j = "rand i mod length pool"
    let ?rest = "butlast (pool[?j := last pool])"
    from False have j: "?j < length pool" by simp
    from pool_step_distinct [OF Suc.prems j]
    have d: "distinct ?rest" and n: "pool ! ?j \<notin> set ?rest" by simp_all
    from Suc.IH [OF d] have "distinct (sample_pool rand (Suc i) ?rest k)" .
    moreover from n sample_pool_set [of rand "Suc i" ?rest k]
    have "pool ! ?j \<notin> set (sample_pool rand (Suc i) ?rest k)" by blast
    ultimately show ?thesis using False by (simp add: Let_def)
  qed
qed

text \<open>
  C6. For every list of candidates and every stream of random draws, the sampling does
  not raise, every pair of the result occurs exactly once in the whole batch, no pair is
  repeated, the result has \<open>min(30, n)\<close> pairs where \<open>n\<close> is the number of pairs that
  occur exactly once, and it is sorted by lemma.
\<close>

theorem sample_rarities_spec:
  "\<exists>out. sample_rarities rand all_words = Some out \<and>
         (\<forall>x \<in> set out. count_list all_words x = 1) \<and>
         distinct out \<and>
         length out = min 30 (card {x. count_list all_words x = 1}) \<and>
         sorted (map fst out)"
proof -
  let ?u = "uniques_of all_words"
  let ?k = "min 30 (length ?u)"
  let ?chosen = "sample_pool rand 0 ?u ?k"
  have k: "?k \<le> length ?u" by simp
  then have rs: "random_sample rand ?u ?k = Some ?chosen"
    by (simp add: random_sample_def)
  then have out: "sample_rarities rand all_words = Some (sort_key fst ?chosen)"
    by (simp add: sample_rarities_def Let_def)
  have "set ?chosen \<subseteq> {x. count_list all_words x = 1}"
    using sample_pool_set [of rand 0 ?u ?k] by (simp add: uniques_of_set)
  then have only: "\<forall>x \<in> set (sort_key fst ?chosen). count_list all_words x = 1"
    by auto
  have dist: "distinct (sort_key fst ?chosen)"
    using sample_pool_distinct [OF uniques_of_distinct, of rand 0 all_words ?k] by simp
  have len: "length (sort_key fst ?chosen) = min 30 (card {x. count_list all_words x = 1})"
    using sample_pool_length [OF k, of rand 0] by (simp add: uniques_of_length)
  have "sorted (map fst (sort_key fst ?chosen))" by (rule sorted_sort_key)
  with out only dist len show ?thesis by blast
qed

lemma scenario_words_sample:
  "sample_rarities (\<lambda>i. 0) scenario_words =
     Some [(degringoler, ascii ''VERB''), (ascii ''environnement'', ascii ''NOUN'')]"
  by code_simp

theorem sample_rarities_spec_witness:
  "sample_rarities (\<lambda>i. 0) scenario_words =
     Some [(degringoler, ascii ''VERB''), (ascii ''environnement'', ascii ''NOUN'')] \<and>
   min 30 (card {x. count_list scenario_words x = 1}) = 2"
proof -
  from sample_rarities_spec [of "\<lambda>i. 0" scenario_words]
  obtain out where "sample_rarities (\<lambda>i. 0) scenario_words = Some out"
    and "length out = min 30 (card {x. count_list scenario_words x = 1})" by blast
  with scenario_words_sample show ?thesis by simp
qed

lemma uniques_of_single: "uniques_of [x] = [x]"
  by (simp add: uniques_of_def Counter_def)

lemma sample_rarities_single: "sample_rarities rand [x] = Some [x]"
  by (simp add: sample_rarities_def uniques_of_single random_sample_def)

lemma sample_rarities_twice: "sample_rarities rand [x, x] = Some []"
  by (simp add: sample_rarities_def uniques_of_def Counter_def random_sample_def)

lemma sample_rarities_none_unique:
  assumes "\<forall>x. count_list all_words x \<noteq> 1"
  shows "sample_rarities rand all_words = Some []"
proof -
  from assms have "set (uniques_of all_words) = {}" by (simp add: uniques_of_set)
  then have "uniques_of all_words = []" by simp
  then show ?thesis by (simp add: sample_rarities_def random_sample_def)
qed

section \<open>Properties of fetch_definition\<close>

lemma no_first_definition_step:
  "no_first_definition defs \<Longrightarrow>
     (if truthy defs then
        (case py_first defs of
           None \<Rightarrow> Raised
         | Some d0 \<Rightarrow>
            (case py_get d0 (ascii ''definition'') PNone of
               None \<Rightarrow> Raised
             | Some v \<Rightarrow>
                 if truthy v then
                   (case py_strip v of None \<Rightarrow> Raised | Some s \<Rightarrow> Returned s)
                 else rest))
      else rest) = rest"
  by (induction defs rule: no_first_definition.induct) (simp_all split: option.splits)

lemma scan_meanings_passed_over:
  "passed_over m \<Longrightarrow> scan_meanings (m # ms) = scan_meanings ms"
proof (induction m rule: passed_over.induct)
  case (1 kvs)
  show ?case
  proof (cases "map_of kvs (ascii ''definitions'')")
    case None
    then show ?thesis by simp
  next
    case (Some defs)
    with 1 have "no_first_definition defs" by simp
    from no_first_definition_step [OF this] Some show ?thesis by simp
  qed
qed simp_all

lemma scan_meanings_skip:
  "\<forall>m \<in> set skipped. passed_over m \<Longrightarrow> scan_meanings (skipped @ ms) = scan_meanings ms"
proof (induction skipped)
  case Nil
  show ?case by simp
next
  case (Cons a skipped)
  then have "passed_over a" and "scan_meanings (skipped @ ms) = scan_meanings ms" by simp_all
  then show ?case using scan_meanings_passed_over [of a "skipped @ ms"] by simp
qed

lemma scan_meanings_hit:
  assumes "map_of m (ascii ''definitions'') = Some (PList (PDict d # ds))"
    and "map_of d (ascii ''definition'') = Some (PStr s)" and "s \<noteq> []"
  shows "scan_meanings (PDict m # later) = Returned (strip s)"
  using assms by simp

lemma fetch_definition_short_circuit:
  "dictionary_api env wd = Returned s \<Longrightarrow>
     fetch_definition lower env wd = (Inr s, [GET (dictionary_url wd)])"
  by (simp add: fetch_definition_def)

text \<open>
  C7. Source A succeeds when the answer has status 200 and its JSON is a list whose first
  entry has, after parts of speech that are passed over, a part of speech whose first
  definition is a non-empty string. Then \<open>fetch_definition\<close> returns that definition
  trimmed and has requested nothing but source A's URL, whatever the other sources and
  the fallback lexicon would give.
\<close>

theorem source_A_short_circuits:
  assumes "requests_get env (dictionary_url wd) = Some r"
    and "status_code r = 200"
    and "resp_json r = Some (PList (PDict e # others))"
    and "map_of e (ascii ''meanings'') = Some (PList (skipped @ PDict m # later))"
    and "\<forall>x \<in> set skipped. passed_over x"
    and "map_of m (ascii ''definitions'') = Some (PList (PDict d # ds))"
    and "map_of d (ascii ''definition'') = Some (PStr s)"
    and "s \<noteq> []"
  shows "fetch_definition lower env wd = (Inr (strip s), [GET (dictionary_url wd)])"
proof -
  have "scan_meanings (PDict m # later) = Returned (strip s)"
    using assms(6-8) by (rule scan_meanings_hit)
  with assms(5) have "scan_meanings (skipped @ PDict m # later) = Returned (strip s)"
    by (simp only: scan_meanings_skip)
  with assms(1-4) have "dictionary_api env wd = Returned (strip s)"
    by (simp add: dictionary_api_def)
  then show ?thesis by (rule fetch_definition_short_circuit)
qed

lemma strip_salutation: "strip (ascii '' Salutation du jour. '') = ascii ''Salutation du jour.''"
  by (simp add: strip_def lstrip_def rstrip_def is_space_def ascii_def)

theorem source_A_short_circuits_witness:
  "fetch_definition ascii_lower
     (stub_world [] [] None \<lparr>requests_get := (\<lambda>url. Some dictionary_answer)\<rparr>) (ascii ''bonjour'') =
     (Inr (ascii ''Salutation du jour.''), [GET (dictionary_url (ascii ''bonjour''))])"
proof -
  let ?env = "stub_world [] [] None \<lparr>requests_get := (\<lambda>url. Some dictionary_answer)\<rparr>"
  let ?m1 = "[(ascii ''partOfSpeech'', PStr (ascii ''interjection'')), (ascii ''definitions'', PList [])]"
  let ?d = "[(ascii ''definition'', PStr (ascii '' Salutation du jour. ''))]"
  let ?d2 = "PDict [(ascii ''definition'', PStr (ascii ''Autre sens.''))]"
  let ?m2 = "[(ascii ''partOfSpeech'', PStr (ascii ''nom'')), (ascii ''definitions'', PList [PDict ?d, ?d2])]"
  let ?e = "[(ascii ''word'', PStr (ascii ''bonjour'')), (ascii ''meanings'', PList [PDict ?m1, PDict ?m2])]"
  have 1: "requests_get ?env (dictionary_url (ascii ''bonjour'')) = Some dictionary_answer"
    by (simp add: stub_world_def)
  have 2: "status_code dictionary_answer = 200" by (simp add: dictionary_answer_def)
  have 3: "resp_json dictionary_answer = Some (PList (PDict ?e # []))"
    by (simp add: dictionary_answer_def)
  have 4: "map_of ?e (ascii ''meanings'') = Some (PList ([PDict ?m1] @ PDict ?m2 # []))"
    by (simp add: ascii_def)
  have 5: "\<forall>x \<in> set [PDict ?m1]. passed_over x" by (simp add: ascii_def)
  have 6: "map_of ?m2 (ascii ''definitions'') = Some (PList (PDict ?d # [?d2]))"
    by (simp add: ascii_def)
  have 7: "map_of ?d (ascii ''definition'') = Some (PStr (ascii '' Salutation du jour. ''))"
    by simp
  have 8: "ascii '' Salutation du jour. '' \<noteq> []" by (simp add: ascii_def)
  from source_A_short_circuits [OF 1 2 3 4 5 6 7 8, of ascii_lower]
  show ?thesis by (simp add: strip_salutation)
qed

text \<open>When every remote source fails, the result is the read of \<open>lexicon_defs\<close>.\<close>

lemma remote_down_get:
  "remote_down env \<Longrightarrow> requests_get env url = Some r \<Longrightarrow> status_code r \<noteq> 200"
proof -
  assume d: "remote_down env" and g: "requests_get env url = Some r"
  from d have "case requests_get env url of None \<Rightarrow> True | Some r \<Rightarrow> status_code r \<noteq> 200"
    unfolding remote_down_def by (rule spec)
  with g show ?thesis by simp
qed

lemma remote_down_dictionary_api:
  "remote_down env \<Longrightarrow> dictionary_api env wd = Raised \<or> dictionary_api env wd = Fell_through"
proof (cases "requests_get env (dictionary_url wd)")
  case None
  then show ?thesis by (simp add: dictionary_api_def)
next
  case (Some r)
  assume "remote_down env"
  from remote_down_get [OF this Some] Some show ?thesis by (simp add: dictionary_api_def)
qed

lemma remote_down_wiktionary_raw:
  "remote_down env \<Longrightarrow>
     wiktionary_raw lower env wd = Raised \<or> wiktionary_raw lower env wd = Fell_through"
proof (cases "requests_get env (wiktionary_raw_url wd)")
  case None
  then show ?thesis by (simp add: wiktionary_raw_def)
next
  case (Some r)
  assume "remote_down env"
  from remote_down_get [OF this Some] Some show ?thesis by (simp add: wiktionary_raw_def)
qed

lemma remote_down_tatoeba:
  "remote_down env \<Longrightarrow> tatoeba env wd = Raised \<or> tatoeba env wd = Fell_through"
proof (cases "requests_get env (tatoeba_url wd)")
  case None
  then show ?thesis by (simp add: tatoeba_def)
next
  case (Some r)
  assume "remote_down env"
  from remote_down_get [OF this Some] Some show ?thesis by (simp add: tatoeba_def)
qed

lemma remote_down_wiki_extract:
  "remote_down env \<Longrightarrow> wiki_extract env wd = Raised \<or> wiki_extract env wd = Fell_through"
proof (cases "requests_get env (extract_url wd)")
  case None
  then show ?thesis by (simp add: wiki_extract_def)
next
  case (Some r)
  assume "remote_down env"
  from remote_down_get [OF this Some] Some show ?thesis by (simp add: wiki_extract_def)
qed

lemma fetch_definition_fallback:
  assumes "dictionary_api env wd = Raised \<or> dictionary_api env wd = Fell_through"
    and "wiktionary_raw lower env wd = Raised \<or> wiktionary_raw lower env wd = Fell_through"
    and "tatoeba env wd = Raised \<or> tatoeba env wd = Fell_through"
  shows "fetch_definition lower env wd =
     ((case lexicon_defs env of
        None \<Rightarrow> Inl NameError
      | Some d \<Rightarrow> Inr (case map_of d (lower wd) of Some v \<Rightarrow> v | None \<Rightarrow> [])),
      [GET (dictionary_url wd), GET (wiktionary_raw_url wd), GET (tatoeba_url wd)])"
  using assms by (auto simp: fetch_definition_def)

lemma fetch_definition_unbound:
  "remote_down env \<Longrightarrow> lexicon_defs env = None \<Longrightarrow>
     fst (fetch_definition lower env wd) = Inl NameError"
  using fetch_definition_fallback [of env wd lower]
    remote_down_dictionary_api [of env wd] remote_down_wiktionary_raw [of env lower wd]
    remote_down_tatoeba [of env wd]
  by simp

lemma fetch_definition_bound:
  "remote_down env \<Longrightarrow> lexicon_defs env = Some d \<Longrightarrow> map_of d (lower wd) = None \<Longrightarrow>
     fst (fetch_definition lower env wd) = Inr []"
  using fetch_definition_fallback [of env wd lower]
    remote_down_dictionary_api [of env wd] remote_down_wiktionary_raw [of env lower wd]
    remote_down_tatoeba [of env wd]
  by simp

text \<open>
  C1 (the program deviates). With every remote source failing, \<open>fetch_definition\<close> reaches
  its last line, where the name \<open>lexicon_defs\<close> is unbound: the call ends in NameError
  instead of returning the empty string.
\<close>

theorem fetch_definition_all_fail_raises:
  "fetch_definition ascii_lower (stub_world [] [] None) (ascii ''bonjour'') =
     (Inl NameError,
      [GET (dictionary_url (ascii ''bonjour'')), GET (wiktionary_raw_url (ascii ''bonjour'')),
       GET (tatoeba_url (ascii ''bonjour''))])"
  by (simp add: fetch_definition_def dictionary_api_def wiktionary_raw_def tatoeba_def
        stub_world_def)

section \<open>Properties of find_example_sentence\<close>

lemma scan_sentences_first:
  "\<forall>x \<in> set before. \<not> py_in wd (lower x) \<Longrightarrow> py_in wd (lower s) \<Longrightarrow>
     scan_sentences lower wd (before @ s # after) = Some (strip s)"
  by (induction before) simp_all

lemma scan_sentences_none:
  "\<forall>x \<in> set ss. \<not> py_in wd (lower x) \<Longrightarrow> scan_sentences lower wd ss = None"
  by (induction ss) simp_all

text \<open>
  C8 (as stated, refuted). The sentence contains the word \<open>Maison\<close> when case is ignored,
  but the test compares the word as passed with the lowercased sentence: the resolver
  goes on to the remote source and ends with the default sentence.
\<close>

theorem local_sentence_case_counterexample:
  "py_in (ascii_lower (ascii ''Maison'')) (ascii_lower (ascii ''Maison de ville'')) \<and>
   find_example_sentence ascii_lower (stub_world [] [] None)
       \<lparr>rss_feeds = [], article_sentences = [ascii ''Maison de ville'']\<rparr> (ascii ''Maison'') =
     (default_example (ascii ''Maison''), [GET (extract_url (ascii ''Maison''))])"
  by (simp add: find_example_sentence_def wiki_extract_def stub_world_def ascii_lower_def ascii_def)

text \<open>
  C8 (amended). If the lowercased text of some locally held sentence contains the word as
  it was passed, the first such sentence is returned trimmed and no request is made,
  whatever the remote source would answer.
\<close>

theorem local_sentence_first:
  assumes "article_sentences self = before @ s # after"
    and "\<forall>x \<in> set before. \<not> py_in wd (lower x)"
    and "py_in wd (lower s)"
  shows "find_example_sentence lower env self wd = (strip s, [])"
  using assms by (simp add: find_example_sentence_def scan_sentences_first)

lemma strip_second: "strip (ascii ''  Un Environnement sain '') = ascii ''Un Environnement sain''"
  by (simp add: strip_def lstrip_def rstrip_def is_space_def ascii_def)

lemma extract_answer_returned:
  "wiki_extract (stub_world [] [] None \<lparr>requests_get := (\<lambda>url. Some extract_answer)\<rparr>) wd =
     Returned (ascii ''Autre phrase.'')"
  by (simp add: wiki_extract_def stub_world_def extract_answer_def ascii_def)

theorem local_sentence_first_witness:
  "find_example_sentence ascii_lower
       (stub_world [] [] None \<lparr>requests_get := (\<lambda>url. Some extract_answer)\<rparr>)
       \<lparr>rss_feeds = [], article_sentences = three_sentences\<rparr> (ascii ''environnement'') =
     (ascii ''Un Environnement sain'', []) \<and>
   wiki_extract (stub_world [] [] None \<lparr>requests_get := (\<lambda>url. Some extract_answer)\<rparr>)
       (ascii ''environnement'') = Returned (ascii ''Autre phrase.'')"
proof -
  let ?self = "\<lparr>rss_feeds = [], article_sentences = three_sentences\<rparr>"
  have 1: "article_sentences ?self =
             [ascii ''Rien ici''] @ ascii ''  Un Environnement sain '' # [ascii ''environnement encore'']"
    by (simp add: three_sentences_def)
  have 2: "\<forall>x \<in> set [ascii ''Rien ici'']. \<not> py_in (ascii ''environnement'') (ascii_lower x)"
    by (simp add: ascii_lower_def ascii_def)
  have 3: "py_in (ascii ''environnement'') (ascii_lower (ascii ''  Un Environnement sain ''))"
    by (simp add: ascii_lower_def ascii_def)
  from local_sentence_first [OF 1 2 3]
  show ?thesis by (simp add: strip_second extract_answer_returned)
qed

lemma py_in_iff: "py_in w s \<longleftrightarrow> (\<exists>p q. s = p @ w @ q)"
proof (induction s)
  case Nil
  then show ?case by auto
next
  case (Cons c cs)
  show ?case
  proof
    assume "py_in w (c # cs)"
    then consider "w = take (length w) (c # cs)" | "py_in w cs" by auto
    then show "\<exists>p q. c # cs = p @ w @ q"
    proof cases
      case 1
      have "c # cs = take (length w) (c # cs) @ drop (length w) (c # cs)"
        by (simp only: append_take_drop_id)
      with 1 have "c # cs = [] @ w @ drop (length w) (c # cs)" by simp
      then show ?thesis by blast
    next
      case 2
      with Cons.IH obtain p q where "cs = p @ w @ q" by blast
      then have "c # cs = (c # p) @ w @ q" by simp
      then show ?thesis by blast
    qed
  next
    assume "\<exists>p q. c # cs = p @ w @ q"
    then obtain p q where pq: "c # cs = p @ w @ q" by blast
    show "py_in w (c # cs)"
    proof (cases p)
      case Nil
      with pq have "take (length w) (c # cs) = w" by simp
      then show ?thesis by simp
    next
      case (Cons a p')
      with pq have "cs = p' @ w @ q" by simp
      with Cons.IH have "py_in w cs" by blast
      then show ?thesis by simp
    qed
  qed
qed

text \<open>
  C9. When no locally held sentence matches and the remote lookup raises or runs through
  without a result, the resolver returns the synthetic default sentence, which contains
  the exact word.
\<close>

theorem default_sentence_last:
  assumes "\<forall>x \<in> set (article_sentences self). \<not> py_in wd (lower x)"
    and "wiki_extract env wd = Raised \<or> wiki_extract env wd = Fell_through"
  shows "find_example_sentence lower env self wd = (default_example wd, [GET (extract_url wd)]) \<and>
         py_in wd (default_example wd)"
proof -
  have "default_example wd =
     (ascii ''Exemple par d'' @ [233] @ ascii ''faut : '' @ [39]) @ wd @
     ([39] @ ascii '' est un mot avanc'' @ [233] @ ascii '' '' @ [224] @ ascii '' conna'' @ [238] @ ascii ''tre.'')"
    by (simp add: default_example_def)
  then have "\<exists>p q. default_example wd = p @ wd @ q" by blast
  then have "py_in wd (default_example wd)" by (simp only: py_in_iff)
  moreover have "scan_sentences lower wd (article_sentences self) = None"
    using assms(1) by (rule scan_sentences_none)
  then have "find_example_sentence lower env self wd = (default_example wd, [GET (extract_url wd)])"
    using assms(2) by (auto simp: find_example_sentence_def)
  ultimately show ?thesis by simp
qed

lemma empty_extract_falls_through:
  "wiki_extract (stub_world [] [] None \<lparr>requests_get := (\<lambda>url. Some empty_extract_answer)\<rparr>) wd =
     Fell_through"
  by (simp add: wiki_extract_def stub_world_def empty_extract_answer_def ascii_def)

theorem default_sentence_last_witness:
  "find_example_sentence ascii_lower
       (stub_world [] [] None \<lparr>requests_get := (\<lambda>url. Some empty_extract_answer)\<rparr>)
       \<lparr>rss_feeds = [], article_sentences = three_sentences\<rparr> (ascii ''maison'') =
     (default_example (ascii ''maison''), [GET (extract_url (ascii ''maison''))]) \<and>
   py_in (ascii ''maison'') (default_example (ascii ''maison''))"
proof -
  let ?self = "\<lparr>rss_feeds = [], article_sentences = three_sentences\<rparr>"
  let ?env = "stub_world [] [] None \<lparr>requests_get := (\<lambda>url. Some empty_extract_answer)\<rparr>"
  have 1: "\<forall>x \<in> set (article_sentences ?self). \<not> py_in (ascii ''maison'') (ascii_lower x)"
    by (simp add: three_sentences_def ascii_lower_def ascii_def)
  have 2: "wiki_extract ?env (ascii ''maison'') = Raised \<or>
           wiki_extract ?env (ascii ''maison'') = Fell_through"
    by (simp add: empty_extract_falls_through)
  from default_sentence_last [OF 1 2] show ?thesis .
qed

section \<open>Properties of run\<close>

lemma init_scraper_sentences: "article_sentences init_scraper = []"
  by (simp add: init_scraper_def)

lemma split_noun_article:
  "split_sentences noun_article = [ascii ''  Un environnement sain'', ascii ''Rien de plus'']"
  by (simp add: split_sentences_def noun_article_def ascii_def is_space_def)

lemma split_verb_article:
  "split_sentences verb_article =
     [ascii ''Les prix d'' @ [233] @ ascii ''gringolent'', ascii ''Tout baisse'']"
  by (simp add: split_sentences_def verb_article_def ascii_def is_space_def)

lemma placeholder_not_empty: "placeholder \<noteq> []"
  by (simp add: placeholder_def ascii_def)

lemma default_example_not_empty: "default_example wd \<noteq> []"
  by (simp add: default_example_def ascii_def)

lemma find_example_sentence_down:
  "remote_down env \<Longrightarrow>
     fst (find_example_sentence lower env self wd) =
       (case scan_sentences lower wd (article_sentences self) of
          Some s \<Rightarrow> s
        | None \<Rightarrow> default_example wd)"
  using remote_down_wiki_extract [of env wd]
  by (auto simp: find_example_sentence_def split: option.splits)

lemma make_cards_unavailable:
  assumes "remote_down env"
    and "lexicon_defs env = Some d"
    and "(case map_of d (lower wd) of Some v \<Rightarrow> v | None \<Rightarrow> []) = []"
  shows "make_cards lower env self [(wd, pos)] ([], out, []) =
           (([(wd, placeholder, fst (find_example_sentence lower env self wd), PStr [])],
             out @ [Card wd pos placeholder (fst (find_example_sentence lower env self wd))],
             [GET (dictionary_url wd), GET (wiktionary_raw_url wd), GET (tatoeba_url wd)] @
               snd (find_example_sentence lower env self wd)),
            None)"
proof -
  have "fetch_definition lower env wd =
          (Inr [], [GET (dictionary_url wd), GET (wiktionary_raw_url wd), GET (tatoeba_url wd)])"
    using fetch_definition_fallback [of env wd lower]
      remote_down_dictionary_api [OF assms(1), of wd]
      remote_down_wiktionary_raw [OF assms(1), of lower wd]
      remote_down_tatoeba [OF assms(1), of wd] assms(2,3)
    by simp
  then show ?thesis by (simp add: Let_def)
qed

lemma make_cards_raises:
  "fst (fetch_definition lower env wd) = Inl e \<Longrightarrow>
     snd (make_cards lower env self ((wd, pos) # rest) (flashcards, out, reqs)) = Some e"
  by (cases "fetch_definition lower env wd") simp

lemma run_raises:
  assumes "fetch_articles_from_rss (feedparser_parse env) self max_articles = ([article], out0)"
    and "clean_and_count_words lower env df article = ([(wd, pos)], said)"
    and "fst (fetch_definition lower env wd) = Inl e"
  shows "written (run lower env df self max_articles) = None \<and>
         raised (run lower env df self max_articles) = Some e"
proof -
  let ?self = "self\<lparr>article_sentences := article_sentences self @ split_sentences article\<rparr>"
  let ?out = "(out0 @ ProcessingArticle 1 1 # said) @ [TotalCandidateTokens 1, Banner]"
  obtain cards out reqs err where mc:
    "make_cards lower env ?self [(wd, pos)] ([], ?out, []) = ((cards, out, reqs), err)"
    by (metis prod.exhaust)
  with make_cards_raises [OF assms(3), of ?self pos "[]" "[]" ?out "[]"]
  have "err = Some e" by simp
  with mc assms(1,2) show ?thesis
    by (simp add: run_def sample_rarities_single del: make_cards.simps)
qed

lemma run_no_rarities:
  assumes "fetch_articles_from_rss (feedparser_parse env) self max_articles = (articles, out0)"
    and "articles \<noteq> []"
    and "process_articles lower env df (length articles) 1 articles (article_sentences self, [], out0) =
           (sentences, all_words, out1)"
    and "all_words \<noteq> []"
    and "\<forall>x. count_list all_words x \<noteq> 1"
  shows "run lower env df self max_articles =
           \<lparr>printed = out1 @ [TotalCandidateTokens (length all_words), Banner], requested = [],
            sentences_held = sentences, written = Some [], raised = None\<rparr>"
  using assms(1-4) sample_rarities_none_unique [OF assms(5), of "random_below env"]
  by (simp add: run_def)

text \<open>
  C2 (the program deviates). With candidates but no pair that occurs exactly once,
  \<open>run\<close> prints the heading and writes the output file with its header line and no
  rows; it prints nothing that tells this state apart.
\<close>

theorem run_without_rarities_writes_header:
  "run ascii_lower (stub_world noun_article twice_tokens None) sample_lexicon init_scraper 1 =
     \<lparr>printed = [ProcessingArticle 1 1, TotalCandidateTokens 2, Banner],
      requested = [],
      sentences_held = [ascii ''  Un environnement sain'', ascii ''Rien de plus''],
      written = Some [],
      raised = None\<rparr>"
  by (simp add: run_def stub_world_fetch twice_tokens_candidates sample_rarities_twice
        init_scraper_sentences split_noun_article)

lemma verb_not_in_article:
  "scan_sentences ascii_lower degringoler (split_sentences verb_article) = None"
  by (simp add: split_verb_article ascii_lower_def ascii_def degringoler_def)

lemma noun_in_article:
  "scan_sentences ascii_lower (ascii ''environnement'') (split_sentences noun_article) =
     Some (ascii ''Un environnement sain'')"
  by (simp add: split_noun_article ascii_lower_def ascii_def strip_def lstrip_def rstrip_def
        is_space_def)

lemma lower_noun_token: "ascii_lower (tok_lemma noun_token) = ascii ''environnement''"
  by (simp add: noun_token_def ascii_lower_def ascii_def)

text \<open>
  C3 (as stated, refuted). With every remote source failing and \<open>lexicon_defs\<close> bound to
  an empty dict, the one flashcard carries the placeholder text as its definition, not
  the empty string. In the program as written, where \<open>lexicon_defs\<close> is unbound, the
  same run raises NameError and writes no file.
\<close>

theorem one_card_definition_counterexample:
  "written (run ascii_lower (stub_world verb_article [verb_token] (Some []))
              sample_lexicon init_scraper 1) =
     Some [(degringoler, placeholder, default_example degringoler, PStr [])] \<and>
   placeholder \<noteq> [] \<and>
   written (run ascii_lower (stub_world verb_article [verb_token] None) sample_lexicon init_scraper 1) = None \<and>
   raised (run ascii_lower (stub_world verb_article [verb_token] None) sample_lexicon init_scraper 1) =
     Some NameError"
proof -
  let ?env = "stub_world verb_article [verb_token] (Some [])"
  let ?unbound = "stub_world verb_article [verb_token] None"
  let ?self = "init_scraper\<lparr>article_sentences := split_sentences verb_article\<rparr>"
  have ex: "fst (find_example_sentence ascii_lower ?env ?self degringoler) = default_example degringoler"
    using find_example_sentence_down [where env = "?env" and lower = ascii_lower
        and self = "?self" and wd = degringoler]
    by (simp add: verb_not_in_article stub_world_down)
  have mc: "make_cards ascii_lower ?env ?self [(degringoler, ascii ''VERB'')] ([], out, []) =
           (([(degringoler, placeholder, default_example degringoler, PStr [])],
             out @ [Card degringoler (ascii ''VERB'') placeholder (default_example degringoler)],
             [GET (dictionary_url degringoler), GET (wiktionary_raw_url degringoler),
              GET (tatoeba_url degringoler)] @
               snd (find_example_sentence ascii_lower ?env ?self degringoler)),
            None)" for out
    using make_cards_unavailable [where env = "?env" and d = "[]" and lower = ascii_lower
        and wd = degringoler and self = "?self" and pos = "ascii ''VERB''" and out = out] ex
    by (simp add: stub_world_fields stub_world_down)
  have w1: "written (run ascii_lower ?env sample_lexicon init_scraper 1) =
              Some [(degringoler, placeholder, default_example degringoler, PStr [])]"
    by (simp add: run_def stub_world_fetch verb_token_candidates sample_rarities_single
          init_scraper_sentences mc del: make_cards.simps)
  have fd: "fst (fetch_definition ascii_lower ?unbound degringoler) = Inl NameError"
    by (simp add: fetch_definition_def dictionary_api_def wiktionary_raw_def tatoeba_def
          stub_world_def)
  have w2: "written (run ascii_lower ?unbound sample_lexicon init_scraper 1) = None \<and>
            raised (run ascii_lower ?unbound sample_lexicon init_scraper 1) = Some NameError"
    using stub_world_fetch verb_token_candidates fd by (rule run_raises)
  from w1 w2 placeholder_not_empty show ?thesis by simp
qed

text \<open>
  C3 (amended). If every remote source fails and \<open>lexicon_defs\<close> is bound to a dict that
  gives nothing for the word, a run on one document with exactly one valid candidate
  writes exactly one flashcard: its definition is the placeholder text, its English
  field is the empty string, and its example is the first locally held sentence that
  contains the word, trimmed, or else the non-empty synthetic sentence.
\<close>

theorem one_card_when_sources_fail:
  assumes "fetch_articles_from_rss (feedparser_parse env) self max_articles = ([article], out0)"
    and "spacy_load env = Some nlp"
    and "filter (is_candidate lower (advanced_lemmas lower df) (exclusion_set lower env)) (nlp article) = [tok]"
    and "remote_down env"
    and "lexicon_defs env = Some d"
    and "(case map_of d (lower (lower (tok_lemma tok))) of Some v \<Rightarrow> v | None \<Rightarrow> []) = []"
  shows "written (run lower env df self max_articles) =
           Some [(lower (tok_lemma tok), placeholder,
                  (case scan_sentences lower (lower (tok_lemma tok))
                          (article_sentences self @ split_sentences article) of
                     Some s \<Rightarrow> s
                   | None \<Rightarrow> default_example (lower (tok_lemma tok))),
                  PStr [])] \<and>
         raised (run lower env df self max_articles) = None \<and>
         placeholder \<noteq> [] \<and> default_example (lower (tok_lemma tok)) \<noteq> []"
proof -
  let ?wd = "lower (tok_lemma tok)"
  define self' where "self' = self\<lparr>article_sentences := article_sentences self @ split_sentences article\<rparr>"
  have cands: "clean_and_count_words lower env df article = ([(?wd, tok_pos tok)], [])"
    using clean_and_count_words_filter [OF assms(2), of lower df article] assms(3) by simp
  have ex: "fst (find_example_sentence lower env self' ?wd) =
          (case scan_sentences lower ?wd (article_sentences self @ split_sentences article) of
             Some s \<Rightarrow> s | None \<Rightarrow> default_example ?wd)"
    using find_example_sentence_down [OF assms(4), of lower self' ?wd] by (simp add: self'_def)
  note mc = make_cards_unavailable [of env d lower ?wd, OF assms(4,5,6)]
  have "written (run lower env df self max_articles) =
          Some [(?wd, placeholder, fst (find_example_sentence lower env self' ?wd), PStr [])] \<and>
        raised (run lower env df self max_articles) = None"
    using assms(1)
    by (simp add: run_def cands sample_rarities_single mc self'_def del: make_cards.simps)
  with ex placeholder_not_empty default_example_not_empty show ?thesis by simp
qed

theorem one_card_when_sources_fail_witness:
  "written (run ascii_lower (stub_world noun_article [noun_token] (Some []))
              sample_lexicon init_scraper 1) =
     Some [(ascii ''environnement'', placeholder, ascii ''Un environnement sain'', PStr [])] \<and>
   raised (run ascii_lower (stub_world noun_article [noun_token] (Some []))
              sample_lexicon init_scraper 1) = None"
proof -
  let ?env = "stub_world noun_article [noun_token] (Some [])"
  have 1: "fetch_articles_from_rss (feedparser_parse ?env) init_scraper 1 = ([noun_article], [])"
    by (rule stub_world_fetch)
  have 2: "spacy_load ?env = Some (\<lambda>text0. [noun_token])" by (simp add: stub_world_fields)
  have 3: "filter (is_candidate ascii_lower (advanced_lemmas ascii_lower sample_lexicon)
             (exclusion_set ascii_lower ?env)) ((\<lambda>text0. [noun_token]) noun_article) = [noun_token]"
    using noun_token_candidate [of noun_article "Some []"] by simp
  have 4: "remote_down ?env" by (rule stub_world_down)
  have 5: "lexicon_defs ?env = Some []" by (simp add: stub_world_fields)
  have 6: "(case map_of [] (ascii_lower (ascii_lower (tok_lemma noun_token))) of
              Some v \<Rightarrow> v | None \<Rightarrow> []) = ([] :: pystr)" by simp
  from one_card_when_sources_fail [OF 1 2 3 4 5 6]
  show ?thesis
    by (simp add: lower_noun_token init_scraper_sentences noun_in_article)
qed

section \<open>Properties of fetch_articles_from_rss\<close>

lemma scan_entries_bound:
  "int (length articles) < m \<Longrightarrow>
     int (length (fst (scan_entries m articles es))) \<le> m \<and>
     (\<not> snd (scan_entries m articles es) \<longrightarrow> int (length (fst (scan_entries m articles es))) < m)"
proof (induction es arbitrary: articles)
  case Nil
  then show ?case by simp
next
  case (Cons e es)
  show ?case
  proof (cases "summary e")
    case None
    note no_summary = this
    show ?thesis
    proof (cases "description e")
      case None
      with no_summary Cons show ?thesis by simp
    next
      case (Some d)
      with no_summary Cons.prems Cons.IH [of "articles @ [d]"] show ?thesis
        by (cases "int (length articles) + 1 \<ge> m") simp_all
    qed
  next
    case (Some s)
    with Cons.prems Cons.IH [of "articles @ [s]"] show ?thesis
      by (cases "int (length articles) + 1 \<ge> m") simp_all
  qed
qed

lemma scan_feeds_bound:
  "int (length articles) < m \<Longrightarrow>
     int (length (fst (scan_feeds parse m articles out feeds))) \<le> m"
proof (induction feeds arbitrary: articles out)
  case Nil
  then show ?case by simp
next
  case (Cons feed feeds)
  show ?case
  proof (cases "parse feed")
    case None
    with Cons show ?thesis by simp
  next
    case (Some entries)
    obtain a r where sc: "scan_entries m articles entries = (a, r)"
      by (cases "scan_entries m articles entries")
    from scan_entries_bound [OF Cons.prems, of entries] sc
    have a: "int (length a) \<le> m" and b: "\<not> r \<longrightarrow> int (length a) < m" by simp_all
    show ?thesis
    proof (cases r)
      case True
      with Some sc a show ?thesis by simp
    next
      case False
      with b have "int (length a) < m" by simp
      from Cons.IH [OF this] Some sc False show ?thesis by simp
    qed
  qed
qed

text \<open>
  C10. For every \<open>max_articles \<ge> 1\<close> and every behaviour of the feeds, at most
  \<open>max_articles\<close> snippets are returned. With \<open>max_articles = 0\<close> the bound fails: the cap
  is tested only after the append, so a first entry with a summary is returned.
\<close>

theorem fetch_articles_from_rss_cap:
  "(1 \<le> max_articles \<longrightarrow>
      int (length (fst (fetch_articles_from_rss parse self max_articles))) \<le> max_articles) \<and>
   fst (fetch_articles_from_rss
          (\<lambda>feed. Some [\<lparr>summary = Some (ascii ''a''), description = None\<rparr>,
                        \<lparr>summary = Some (ascii ''b''), description = None\<rparr>])
          init_scraper 0) = [ascii ''a'']"
proof
  show "1 \<le> max_articles \<longrightarrow>
      int (length (fst (fetch_articles_from_rss parse self max_articles))) \<le> max_articles"
    using scan_feeds_bound [of "[]" max_articles parse "[]" "rss_feeds self"]
    by (simp add: fetch_articles_from_rss_def)
  show "fst (fetch_articles_from_rss
          (\<lambda>feed. Some [\<lparr>summary = Some (ascii ''a''), description = None\<rparr>,
                        \<lparr>summary = Some (ascii ''b''), description = None\<rparr>])
          init_scraper 0) = [ascii ''a'']"
    by (simp add: fetch_articles_from_rss_def init_scraper_def)
qed

theorem fetch_articles_from_rss_cap_witness:
  "(1::int) \<le> 2 \<and>
   fst (fetch_articles_from_rss
          (\<lambda>feed. Some [\<lparr>summary = Some (ascii ''a''), description = None\<rparr>,
                        \<lparr>summary = None, description = Some (ascii ''b'')\<rparr>,
                        \<lparr>summary = Some (ascii ''c''), description = None\<rparr>])
          init_scraper 2) = [ascii ''a'', ascii ''b''] \<and>
   int (length (fst (fetch_articles_from_rss
          (\<lambda>feed. Some [\<lparr>summary = Some (ascii ''a''), description = None\<rparr>,
                        \<lparr>summary = None, description = Some (ascii ''b'')\<rparr>,
                        \<lparr>summary = Some (ascii ''c''), description = None\<rparr>])
          init_scraper 2))) \<le> 2"
  using fetch_articles_from_rss_cap
    [of 2 "\<lambda>feed. Some [\<lparr>summary = Some (ascii ''a''), description = None\<rparr>,
                        \<lparr>summary = None, description = Some (ascii ''b'')\<rparr>,
                        \<lparr>summary = Some (ascii ''c''), description = None\<rparr>]" init_scraper]
  by (simp add: fetch_articles_from_rss_def init_scraper_def)

end
